theory Spec2Isabelle
  imports Complex_Main
begin

section \<open>Data model of the Haka waveform visualiser\<close>

text \<open>
  The TypeScript class \<open>Haka\<close> keeps a timeline of bars, samples an audio analyser at a
  bounded rate, and repaints a canvas on every animation frame. JavaScript numbers are
  modelled as the reals (finite, exact arithmetic): rounding of IEEE doubles, \<open>NaN\<close> and the
  infinities are outside the number type. Where the source can produce an infinity (the
  division in \<open>initialize\<close>) the model says so explicitly with the type \<open>jsnum\<close> below.
\<close>

datatype status = placeholder | recorded

text \<open>
  The type \<open>Bar\<close> of the source. Its fields \<open>x\<close>, \<open>y\<close>, \<open>width\<close> and \<open>height\<close> carry the
  prefix \<open>bar_\<close> here, since the class has fields \<open>width\<close> and \<open>height\<close> of its own.
\<close>

record Bar =
  bar_x :: real
  bar_y :: real
  bar_width :: real
  bar_height :: real
  targetHeight :: real
  created :: real
  status :: status

text \<open>
  The 2D drawing context: the current fill style and the drawing calls made so far, oldest
  first. \<open>FillRect\<close> records the fill style that was current when the call was made.
\<close>

datatype draw =
    ClearRect real real real real
  | FillRect string real real real real
  | Scale real real

record Context2D =
  fillStyle :: string
  calls :: "draw list"

definition clearRect :: "real \<Rightarrow> real \<Rightarrow> real \<Rightarrow> real \<Rightarrow> Context2D \<Rightarrow> Context2D" where
  "clearRect px py w h c = c\<lparr>calls := calls c @ [ClearRect px py w h]\<rparr>"

definition fillRect :: "real \<Rightarrow> real \<Rightarrow> real \<Rightarrow> real \<Rightarrow> Context2D \<Rightarrow> Context2D" where
  "fillRect px py w h c = c\<lparr>calls := calls c @ [FillRect (fillStyle c) px py w h]\<rparr>"

definition scale :: "real \<Rightarrow> real \<Rightarrow> Context2D \<Rightarrow> Context2D" where
  "scale sx sy c = c\<lparr>calls := calls c @ [Scale sx sy]\<rparr>"

text \<open>
  The canvas element as the class reads and writes it: its layout size, its pixel size, its
  CSS size, and the context \<open>getContext('2d')\<close> returns (\<open>None\<close> for \<open>null\<close>).
\<close>

record Canvas =
  offsetWidth :: real
  offsetHeight :: real
  canvas_width :: real
  canvas_height :: real
  style_width :: real
  style_height :: real
  context2d :: "Context2D option"

record AnalyserNode =
  fftSize :: nat

text \<open>
  \<open>HakaOptions\<close>: every field but the canvas is optional; \<open>None\<close> is \<open>undefined\<close>. The
  option fields carry the prefix \<open>opt_\<close>, the class fields keep the source's names.
\<close>

record HakaOptions =
  opt_canvas :: Canvas
  opt_timeOffset :: "real option"
  opt_barWidth :: "real option"
  opt_barGap :: "real option"
  opt_scrollSpeed :: "real option"
  opt_barColor :: "string option"
  opt_dotColor :: "string option"
  opt_blackDotColor :: "string option"
  opt_noiseThreshold :: "real option"
  opt_easing :: "(real \<Rightarrow> real) option"
  opt_expandDuration :: "real option"

text \<open>
  The instance. After the fields of the class come three fields of the host that the class
  acts on: the messages written with \<open>console.error\<close>, the number of calls of
  \<open>getUserMedia\<close>, and the ids of the animation-frame callbacks that are registered and have
  neither run nor been cancelled.
\<close>

record Haka =
  canvas :: Canvas
  ctx :: Context2D
  width :: real
  height :: real
  analyser :: "AnalyserNode option"
  frequencyArray :: "real list option"
  animationFrameId :: "nat option"
  bars :: "Bar list"
  timeOffset :: real
  barWidth :: real
  barGap :: real
  scrollSpeed :: real
  barColor :: string
  dotColor :: string
  blackDotColor :: string
  noiseThreshold :: real
  easing :: "real \<Rightarrow> real"
  expandDuration :: real
  lastDataCollectionTime :: real
  console :: "(string \<times> string) list"
  mediaRequests :: nat
  pendingFrames :: "nat list"

datatype error = NoContext2D

section \<open>Construction\<close>

text \<open>
  \<open>a || d\<close> on an optional number: \<open>undefined\<close> and \<open>0\<close> are falsy and give \<open>d\<close>.
  On an optional string the falsy values are \<open>undefined\<close> and the empty string. A function
  is always truthy, so only \<open>undefined\<close> gives the default easing. \<open>a ?? d\<close> gives \<open>d\<close>
  for \<open>undefined\<close> alone.
\<close>

definition falsy_number :: "real option \<Rightarrow> bool" where
  "falsy_number a = (case a of None \<Rightarrow> True | Some v \<Rightarrow> v = 0)"

definition falsy_string :: "string option \<Rightarrow> bool" where
  "falsy_string a = (case a of None \<Rightarrow> True | Some v \<Rightarrow> v = [])"

definition or_number :: "real option \<Rightarrow> real \<Rightarrow> real" where
  "or_number a d = (case a of None \<Rightarrow> d | Some v \<Rightarrow> if v = 0 then d else v)"

definition or_string :: "string option \<Rightarrow> string \<Rightarrow> string" where
  "or_string a d = (case a of None \<Rightarrow> d | Some v \<Rightarrow> if v = [] then d else v)"

definition or_function :: "(real \<Rightarrow> real) option \<Rightarrow> (real \<Rightarrow> real) \<Rightarrow> real \<Rightarrow> real" where
  "or_function a d = (case a of None \<Rightarrow> d | Some f \<Rightarrow> f)"

definition nullish_number :: "real option \<Rightarrow> real \<Rightarrow> real" where
  "nullish_number a d = (case a of None \<Rightarrow> d | Some v \<Rightarrow> v)"

definition easeInOutCubic :: "real \<Rightarrow> real" where
  "easeInOutCubic t = (if t < 0.5 then 4 * t * t * t else 1 - (- 2 * t + 2) ^ 3 / 2)"

text \<open>
  \<open>setupCanvas\<close>: the surface takes the layout size of the canvas, the pixel buffer is sized
  by the device pixel ratio (\<open>window.devicePixelRatio || 1\<close>), and the context is scaled.
\<close>

definition setupCanvas :: "real option \<Rightarrow> Haka \<Rightarrow> Haka" where
  "setupCanvas devicePixelRatio h =
     (let w = offsetWidth (canvas h);
          ht = offsetHeight (canvas h);
          dpr = or_number devicePixelRatio 1
      in h\<lparr>width := w, height := ht,
            canvas := (canvas h)\<lparr>canvas_width := w * dpr, canvas_height := ht * dpr,
                                  style_width := w, style_height := ht\<rparr>,
            ctx := scale dpr dpr (ctx h)\<rparr>)"

text \<open>
  The constructor. It throws when the canvas has no 2D context. The fields the source
  initialises at their declaration (\<open>bars = []\<close>, \<open>lastDataCollectionTime = 0\<close>) and the
  ones it leaves \<open>undefined\<close> are set here.
\<close>

definition constructor :: "HakaOptions \<Rightarrow> real option \<Rightarrow> error + Haka" where
  "constructor options devicePixelRatio =
     (case context2d (opt_canvas options) of
        None \<Rightarrow> Inl NoContext2D
      | Some c \<Rightarrow>
          Inr (setupCanvas devicePixelRatio
            \<lparr>canvas = opt_canvas options,
             ctx = c,
             width = canvas_width (opt_canvas options),
             height = canvas_height (opt_canvas options),
             analyser = None,
             frequencyArray = None,
             animationFrameId = None,
             bars = [],
             timeOffset = or_number (opt_timeOffset options) 100,
             barWidth = or_number (opt_barWidth options) 3,
             barGap = or_number (opt_barGap options) 10,
             scrollSpeed = or_number (opt_scrollSpeed options) 1,
             barColor = or_string (opt_barColor options) ''#FFFFFF'',
             dotColor = or_string (opt_dotColor options) ''#666666'',
             blackDotColor = or_string (opt_blackDotColor options) ''#000000'',
             noiseThreshold = nullish_number (opt_noiseThreshold options) 0.01,
             easing = or_function (opt_easing options) easeInOutCubic,
             expandDuration = or_number (opt_expandDuration options) 200,
             lastDataCollectionTime = 0,
             console = [],
             mediaRequests = 0,
             pendingFrames = []\<rparr>))"

section \<open>Seeding the timeline\<close>

text \<open>
  \<open>Math.ceil(this.width / (this.barWidth + this.barGap))\<close>. When the divisor is \<open>0\<close> the
  quotient of the source is \<open>Infinity\<close>, \<open>-Infinity\<close> or \<open>NaN\<close>, by the sign of the
  numerator, and \<open>Math.ceil\<close> returns it unchanged; HOL's \<open>a / 0 = 0\<close> is not used.
\<close>

datatype jsnum = Finite int | PosInfinity | NegInfinity | NaN

definition ceil_div :: "real \<Rightarrow> real \<Rightarrow> jsnum" where
  "ceil_div a b =
     (if b \<noteq> 0 then Finite \<lceil>a / b\<rceil>
      else if 0 < a then PosInfinity
      else if a < 0 then NegInfinity
      else NaN)"

text \<open>The loop test \<open>i < visibleSegmentCount\<close>: every comparison with \<open>NaN\<close> is false.\<close>

fun less_count :: "nat \<Rightarrow> jsnum \<Rightarrow> bool" where
  "less_count i (Finite n) = (int i < n)"
| "less_count i PosInfinity = True"
| "less_count i NegInfinity = False"
| "less_count i NaN = False"

definition placeholder_bar :: "Haka \<Rightarrow> nat \<Rightarrow> Bar" where
  "placeholder_bar h i =
     \<lparr>bar_x = real i * (barWidth h + barGap h), bar_y = 0, bar_width = barWidth h,
      bar_height = 0, targetHeight = 0, created = 0, status = placeholder\<rparr>"

text \<open>
  The \<open>for\<close> loop of \<open>initialize\<close>. With the count \<open>Infinity\<close> its test never fails, so the
  loop is a partial function: \<open>None\<close> is "does not return".
\<close>

partial_function (option) initialize_loop :: "jsnum \<Rightarrow> nat \<Rightarrow> Haka \<Rightarrow> Haka option" where
  "initialize_loop visibleSegmentCount i h =
     (if less_count i visibleSegmentCount
      then initialize_loop visibleSegmentCount (Suc i)
             (h\<lparr>bars := bars h @ [placeholder_bar h i]\<rparr>)
      else Some h)"

primrec drawInitialFrame_loop :: "real \<Rightarrow> Bar list \<Rightarrow> Context2D \<Rightarrow> Context2D" where
  "drawInitialFrame_loop dotY [] c = c"
| "drawInitialFrame_loop dotY (bar # rest) c =
     drawInitialFrame_loop dotY rest (fillRect (bar_x bar) dotY (bar_width bar) 2 c)"

definition drawInitialFrame :: "Haka \<Rightarrow> Haka" where
  "drawInitialFrame h =
     (let c = clearRect 0 0 (width h) (height h) (ctx h);
          dotY = height h / 2 - 1
      in h\<lparr>ctx := drawInitialFrame_loop dotY (bars h) (c\<lparr>fillStyle := blackDotColor h\<rparr>)\<rparr>)"

definition initialize :: "Haka \<Rightarrow> Haka option" where
  "initialize h =
     (let visibleSegmentCount = ceil_div (width h) (barWidth h + barGap h)
      in map_option drawInitialFrame (initialize_loop visibleSegmentCount 0 (h\<lparr>bars := []\<rparr>)))"

section \<open>The animation frame\<close>

text \<open>
  \<open>getFloatTimeDomainData\<close> copies the analyser's current block of samples, \<open>wave\<close>, into
  the array it is given, as far as both reach.
\<close>

definition getFloatTimeDomainData :: "real list \<Rightarrow> real list \<Rightarrow> real list" where
  "getFloatTimeDomainData wave arr = take (length arr) wave @ drop (length wave) arr"

text \<open>The loop over the sample buffer, with the running maximum \<open>max\<close> (named \<open>m\<close>).\<close>

primrec peak_loop :: "real \<Rightarrow> real list \<Rightarrow> real" where
  "peak_loop m [] = m"
| "peak_loop m (v # rest) = peak_loop (if v > m then v else m) rest"

text \<open>
  The first half of \<open>animate\<close>: where the newest bar stands, whether there is room at the
  right edge, whether a source is attached and the interval has passed, and the new bar.
\<close>

definition sample_due :: "real \<Rightarrow> Haka \<Rightarrow> bool" where
  "sample_due now h =
     (let lastX = (if bars h \<noteq> [] then bar_x (last (bars h)) else width h)
      in width h - lastX \<ge> barWidth h + barGap h \<and>
         analyser h \<noteq> None \<and> frequencyArray h \<noteq> None \<and>
         now - lastDataCollectionTime h > timeOffset h)"

definition animate_sample :: "real \<Rightarrow> real list \<Rightarrow> Haka \<Rightarrow> Haka" where
  "animate_sample now wave h =
     (if sample_due now h then
        (let arr = getFloatTimeDomainData wave (the (frequencyArray h));
             m = peak_loop 0 arr;
             barHeight = of_int \<lfloor>m * height h * 1.2\<rfloor>
         in h\<lparr>lastDataCollectionTime := now,
               frequencyArray := Some arr,
               bars := bars h @
                 [\<lparr>bar_x = width h, bar_y = 0, bar_width = barWidth h, bar_height = 0,
                   targetHeight = barHeight, created = now, status = recorded\<rparr>]\<rparr>)
      else h)"

text \<open>
  The body of the loop over the bars for one bar: paint it, grow a recorded bar towards its
  target, then move it left by the scroll speed. The result is the bar as the loop leaves it
  and the context after the paint. The quotient \<open>age / expandDuration\<close> is the quotient of
  reals: the constructor never stores \<open>0\<close> as the expand duration (\<open>0 || 200\<close> is \<open>200\<close>),
  so no instance divides by \<open>0\<close> here.
\<close>

definition animate_bar :: "real \<Rightarrow> Haka \<Rightarrow> Bar \<Rightarrow> Bar \<times> Context2D" where
  "animate_bar now h bar =
     (let minHeight = height h * noiseThreshold h;
          dotY = height h / 2 - 1;
          (bar1, c1) =
            (if status bar = placeholder then
               (bar, fillRect (bar_x bar) dotY (bar_width bar) 2
                       ((ctx h)\<lparr>fillStyle := blackDotColor h\<rparr>))
             else
               (let age = now - created bar;
                    rawProgress = min (age / expandDuration h) 1;
                    expandProgress = easing h rawProgress;
                    grown = bar\<lparr>bar_height := targetHeight bar * expandProgress\<rparr>;
                    placed = grown\<lparr>bar_y := height h / 2 - bar_height grown / 2\<rparr>
                in if targetHeight placed < minHeight then
                     (placed, fillRect (bar_x placed) dotY (bar_width placed) 2
                                ((ctx h)\<lparr>fillStyle := dotColor h\<rparr>))
                   else
                     (placed, fillRect (bar_x placed) (bar_y placed) (bar_width placed)
                                (bar_height placed) ((ctx h)\<lparr>fillStyle := barColor h\<rparr>))))
      in (bar1\<lparr>bar_x := bar_x bar1 - scrollSpeed h\<rparr>, c1))"

text \<open>One iteration at index \<open>i\<close>: \<open>splice(i, 1)\<close> when the bar has left the surface.\<close>

definition animate_body :: "real \<Rightarrow> nat \<Rightarrow> Haka \<Rightarrow> Haka" where
  "animate_body now i h =
     (let (bar, c) = animate_bar now h (bars h ! i)
      in h\<lparr>ctx := c,
            bars := (if bar_x bar + bar_width bar < 0
                     then take i (bars h) @ drop (Suc i) (bars h)
                     else (bars h)[i := bar])\<rparr>)"

text \<open>
  The loop \<open>for (i = bars.length - 1; i >= 0; i--)\<close>; the counter \<open>k\<close> is \<open>i + 1\<close>.
\<close>

primrec animate_loop :: "real \<Rightarrow> nat \<Rightarrow> Haka \<Rightarrow> Haka" where
  "animate_loop now 0 h = h"
| "animate_loop now (Suc i) h = animate_loop now i (animate_body now i h)"

text \<open>
  \<open>animate\<close>, with what the host supplies: the clock reading \<open>now\<close>, the analyser's block
  \<open>wave\<close>, and the id \<open>frameId\<close> that \<open>requestAnimationFrame\<close> returns.
\<close>

definition animate :: "real \<Rightarrow> real list \<Rightarrow> nat \<Rightarrow> Haka \<Rightarrow> Haka" where
  "animate now wave frameId h =
     (let h1 = h\<lparr>ctx := clearRect 0 0 (width h) (height h) (ctx h)\<rparr>;
          h2 = animate_sample now wave h1;
          h3 = animate_loop now (length (bars h2)) h2
      in h3\<lparr>animationFrameId := Some frameId,
             pendingFrames := pendingFrames h3 @ [frameId]\<rparr>)"

section \<open>Starting and stopping\<close>

text \<open>
  How the promise of \<open>getUserMedia\<close> settles. With a stream the host also supplies what
  \<open>soundAllowed\<close> reads: the clock in \<open>soundAllowed\<close>, and the clock, the analyser's block
  and the frame id of the first \<open>animate\<close>. Of the audio graph that \<open>soundAllowed\<close> builds
  the instance keeps the analyser (\<open>fftSize = 512\<close>) and a zeroed array of that length.
  \<open>start\<close> counts the call of \<open>getUserMedia\<close> and runs the handler of the settled promise:
  \<open>soundAllowed\<close> for a stream, \<open>soundNotAllowed\<close>, which writes to the console, for a
  rejection.
\<close>

datatype userMedia = Stream real real "real list" nat | Rejected string

definition soundAllowed :: "real \<Rightarrow> real \<Rightarrow> real list \<Rightarrow> nat \<Rightarrow> Haka \<Rightarrow> Haka" where
  "soundAllowed now1 now2 wave frameId h =
     animate now2 wave frameId
       (h\<lparr>analyser := Some \<lparr>fftSize = 512\<rparr>,
          frequencyArray := Some (replicate 512 0),
          lastDataCollectionTime := now1\<rparr>)"

definition soundNotAllowed :: "string \<Rightarrow> Haka \<Rightarrow> Haka" where
  "soundNotAllowed err h = h\<lparr>console := console h @ [(''Error getting audio stream:'', err)]\<rparr>"

definition start :: "userMedia \<Rightarrow> Haka \<Rightarrow> Haka" where
  "start settled h =
     (let h1 = h\<lparr>mediaRequests := Suc (mediaRequests h)\<rparr>
      in case settled of
           Stream now1 now2 wave frameId \<Rightarrow> soundAllowed now1 now2 wave frameId h1
         | Rejected err \<Rightarrow> soundNotAllowed err h1)"

text \<open>\<open>stop\<close>: an id that is \<open>undefined\<close> or \<open>0\<close> is falsy and cancels nothing.\<close>

definition stop :: "Haka \<Rightarrow> Haka" where
  "stop h =
     (case animationFrameId h of
        None \<Rightarrow> h
      | Some frameId \<Rightarrow>
          if frameId = 0 then h
          else h\<lparr>pendingFrames := removeAll frameId (pendingFrames h)\<rparr>)"

section \<open>Reachable states\<close>

text \<open>
  \<open>reach t h\<close>: the instance \<open>h\<close> can arise, with \<open>t\<close> the latest reading of the clock. The
  caller constructs the instance on a canvas of non-negative layout size and then calls
  \<open>initialize\<close>, \<open>start\<close> and \<open>stop\<close> in any order; the host runs a registered frame callback
  (\<open>frame\<close>: the callback registered under \<open>frameId\<close> leaves the host's list and \<open>animate\<close>
  runs). The clock (\<open>performance.now\<close>) never goes back.
\<close>

definition frame :: "nat \<Rightarrow> real \<Rightarrow> real list \<Rightarrow> nat \<Rightarrow> Haka \<Rightarrow> Haka" where
  "frame frameId now wave frameId' h =
     animate now wave frameId' (h\<lparr>pendingFrames := removeAll frameId (pendingFrames h)\<rparr>)"

inductive reach :: "real \<Rightarrow> Haka \<Rightarrow> bool" where
  reach_new:
    "constructor options dpr = Inr h \<Longrightarrow> 0 \<le> offsetWidth (opt_canvas options) \<Longrightarrow>
     0 \<le> offsetHeight (opt_canvas options) \<Longrightarrow> reach t h"
| reach_initialize:
    "reach t h \<Longrightarrow> initialize h = Some h' \<Longrightarrow> reach t h'"
| reach_start:
    "reach t h \<Longrightarrow> t \<le> now1 \<Longrightarrow> now1 \<le> now2 \<Longrightarrow>
     reach now2 (start (Stream now1 now2 wave frameId) h)"
| reach_rejected:
    "reach t h \<Longrightarrow> reach t (start (Rejected err) h)"
| reach_frame:
    "reach t h \<Longrightarrow> frameId \<in> set (pendingFrames h) \<Longrightarrow> t \<le> now \<Longrightarrow>
     reach now (frame frameId now wave frameId' h)"
| reach_stop:
    "reach t h \<Longrightarrow> reach t (stop h)"

text \<open>
  \<open>host_reach h h'\<close>: from \<open>h\<close> the host alone, with no further call by the user, can bring
  the instance to \<open>h'\<close>. All the host does unasked is run registered frame callbacks.
\<close>

inductive host_reach :: "Haka \<Rightarrow> Haka \<Rightarrow> bool" where
  host_stay: "host_reach h h"
| host_frame:
    "host_reach h h' \<Longrightarrow> frameId \<in> set (pendingFrames h') \<Longrightarrow>
     host_reach h (frame frameId now wave frameId' h')"

section \<open>Derived notions\<close>

text \<open>
  What one frame does to one bar, read off \<open>animate_bar\<close>: the bar as the loop leaves it,
  the test that removes it, and the eased progress of its growth.
\<close>

definition advance :: "real \<Rightarrow> Haka \<Rightarrow> Bar \<Rightarrow> Bar" where
  "advance now h bar = fst (animate_bar now h bar)"

definition culled :: "Bar \<Rightarrow> bool" where
  "culled bar = (bar_x bar + bar_width bar < 0)"

definition progress :: "real \<Rightarrow> Haka \<Rightarrow> Bar \<Rightarrow> real" where
  "progress now h bar = easing h (min ((now - created bar) / expandDuration h) 1)"

text \<open>The settings of an instance: the fields that no frame changes.\<close>

definition same_settings :: "Haka \<Rightarrow> Haka \<Rightarrow> bool" where
  "same_settings h h' \<longleftrightarrow>
     width h' = width h \<and> height h' = height h \<and> analyser h' = analyser h \<and>
     timeOffset h' = timeOffset h \<and> barWidth h' = barWidth h \<and> barGap h' = barGap h \<and>
     scrollSpeed h' = scrollSpeed h \<and> barColor h' = barColor h \<and> dotColor h' = dotColor h \<and>
     blackDotColor h' = blackDotColor h \<and> noiseThreshold h' = noiseThreshold h \<and>
     easing h' = easing h \<and> expandDuration h' = expandDuration h"

text \<open>The rectangle \<open>animate_bar\<close> paints for a bar.\<close>

definition paint :: "real \<Rightarrow> Haka \<Rightarrow> Bar \<Rightarrow> draw" where
  "paint now h bar = last (calls (snd (animate_bar now h bar)))"

text \<open>
  The number of frames of a run on which a sample is taken; a frame is given with what the
  host supplies to it: the clock reading, the analyser's block and the frame id.
\<close>

primrec samples_taken :: "(real \<times> real list \<times> nat) list \<Rightarrow> Haka \<Rightarrow> nat" where
  "samples_taken [] h = 0"
| "samples_taken (f # fs) h =
     (if sample_due (fst f) h then 1 else 0)
     + samples_taken fs (animate (fst f) (fst (snd f)) (snd (snd f)) h)"

text \<open>
  What holds of every reachable instance whatever its settings: the surface is not negative,
  the expand duration is not \<open>0\<close>, every bar has the configured width and a target height
  that is not negative, a recorded bar was created no later than the latest clock reading,
  and a placeholder has no height.
\<close>

definition wellformed :: "real \<Rightarrow> Haka \<Rightarrow> bool" where
  "wellformed t h \<longleftrightarrow>
     0 \<le> width h \<and> 0 \<le> height h \<and> expandDuration h \<noteq> 0 \<and>
     (\<forall>bar \<in> set (bars h).
        bar_width bar = barWidth h \<and> 0 \<le> targetHeight bar \<and>
        (status bar = recorded \<longrightarrow> created bar \<le> t) \<and>
        (status bar = placeholder \<longrightarrow> bar_height bar = 0 \<and> targetHeight bar = 0))"

text \<open>The bar a frame appends when it takes a sample.\<close>

definition sampled_bar :: "real \<Rightarrow> real list \<Rightarrow> Haka \<Rightarrow> Bar" where
  "sampled_bar now wave h = last (bars (animate_sample now wave h))"

text \<open>
  An easing that maps \<open>[0, 1]\<close> into \<open>[0, 1]\<close>, and a timeline whose every bar has its current
  height between \<open>0\<close> and its target height.
\<close>

definition unit_range :: "(real \<Rightarrow> real) \<Rightarrow> bool" where
  "unit_range e \<longleftrightarrow> (\<forall>p. 0 \<le> p \<and> p \<le> 1 \<longrightarrow> 0 \<le> e p \<and> e p \<le> 1)"

definition heights_bounded :: "Haka \<Rightarrow> bool" where
  "heights_bounded h \<longleftrightarrow>
     (\<forall>bar \<in> set (bars h). 0 \<le> bar_height bar \<and> bar_height bar \<le> targetHeight bar)"

text \<open>An easing that is monotone on \<open>[0, 1]\<close>, where the frames evaluate it.\<close>

definition monotone_on_unit :: "(real \<Rightarrow> real) \<Rightarrow> bool" where
  "monotone_on_unit e \<longleftrightarrow> (\<forall>p q. 0 \<le> p \<and> p \<le> q \<and> q \<le> 1 \<longrightarrow> e p \<le> e q)"


section \<open>Example instances\<close>

text \<open>A canvas of layout size 100 by 100 with a 2D context, and options for it.\<close>

definition demo_canvas :: Canvas where
  "demo_canvas =
     \<lparr>offsetWidth = 100, offsetHeight = 100, canvas_width = 300, canvas_height = 150,
      style_width = 0, style_height = 0,
      context2d = Some \<lparr>fillStyle = ''#000000'', calls = []\<rparr>\<rparr>"

definition no_options :: HakaOptions where
  "no_options =
     \<lparr>opt_canvas = demo_canvas, opt_timeOffset = None, opt_barWidth = None, opt_barGap = None,
      opt_scrollSpeed = None, opt_barColor = None, opt_dotColor = None,
      opt_blackDotColor = None, opt_noiseThreshold = None, opt_easing = None,
      opt_expandDuration = None\<rparr>"

text \<open>Every option falsy but not \<open>undefined\<close>, where the type has such a value.\<close>

definition zero_options :: HakaOptions where
  "zero_options =
     \<lparr>opt_canvas = demo_canvas, opt_timeOffset = Some 0, opt_barWidth = Some 0,
      opt_barGap = Some 0, opt_scrollSpeed = Some 0, opt_barColor = Some [],
      opt_dotColor = Some [], opt_blackDotColor = Some [], opt_noiseThreshold = Some 0,
      opt_easing = None, opt_expandDuration = Some 0\<rparr>"

text \<open>The instance the constructor builds from no options on \<open>demo_canvas\<close>.\<close>

definition demo :: Haka where
  "demo =
     \<lparr>canvas = demo_canvas\<lparr>canvas_width := 100, canvas_height := 100,
                             style_width := 100, style_height := 100\<rparr>,
      ctx = \<lparr>fillStyle = ''#000000'', calls = [Scale 1 1]\<rparr>,
      width = 100, height = 100, analyser = None, frequencyArray = None,
      animationFrameId = None, bars = [], timeOffset = 100, barWidth = 3, barGap = 10,
      scrollSpeed = 1, barColor = ''#FFFFFF'', dotColor = ''#666666'',
      blackDotColor = ''#000000'', noiseThreshold = 0.01, easing = easeInOutCubic,
      expandDuration = 200, lastDataCollectionTime = 0, console = [], mediaRequests = 0,
      pendingFrames = []\<rparr>"

text \<open>
  Instances with \<open>scrollSpeed: 7\<close>, an easing \<open>e\<close> and an expand duration \<open>d\<close>: the options,
  the instance the constructor builds from them, the instance after \<open>initialize\<close>, and the
  instance after \<open>start\<close> once the stream is granted at clock reading \<open>t\<close>. The names with
  \<open>fast\<close> are the ones with the default easing and duration. \<open>dot px\<close> is a placeholder bar
  at offset \<open>px\<close>.
\<close>

definition tuned_options :: "(real \<Rightarrow> real) \<Rightarrow> real \<Rightarrow> HakaOptions" where
  "tuned_options e d =
     no_options\<lparr>opt_scrollSpeed := Some 7, opt_easing := Some e, opt_expandDuration := Some d\<rparr>"

definition tuned :: "(real \<Rightarrow> real) \<Rightarrow> real \<Rightarrow> Haka" where
  "tuned e d = demo\<lparr>scrollSpeed := 7, easing := e, expandDuration := d\<rparr>"

definition seeded :: "(real \<Rightarrow> real) \<Rightarrow> real \<Rightarrow> Haka" where
  "seeded e d =
     drawInitialFrame ((tuned e d)\<lparr>bars := map (placeholder_bar (tuned e d)) [0..<8]\<rparr>)"

definition listening :: "(real \<Rightarrow> real) \<Rightarrow> real \<Rightarrow> real \<Rightarrow> Haka" where
  "listening e d t = start (Stream t t [] 1) (seeded e d)"

abbreviation fast_options :: HakaOptions where
  "fast_options \<equiv> tuned_options easeInOutCubic 200"

abbreviation fast :: Haka where
  "fast \<equiv> tuned easeInOutCubic 200"

abbreviation fast_seeded :: Haka where
  "fast_seeded \<equiv> seeded easeInOutCubic 200"

abbreviation listening_since :: "real \<Rightarrow> Haka" where
  "listening_since \<equiv> listening easeInOutCubic 200"

definition dot :: "real \<Rightarrow> Bar" where
  "dot px = \<lparr>bar_x = px, bar_y = 0, bar_width = 3, bar_height = 0, targetHeight = 0,
             created = 0, status = placeholder\<rparr>"

text \<open>
  A loud block of samples (peak \<open>5/12\<close>, target height \<open>50\<close> on a surface of height 100),
  and the instance that listens since \<open>-101\<close>, samples the loud block on the frame at clock
  \<open>0\<close> and runs one more frame at clock \<open>t\<close>.
\<close>

definition loud :: "real list" where
  "loud = replicate 512 (5 / 12)"

definition grown :: "(real \<Rightarrow> real) \<Rightarrow> real \<Rightarrow> real \<Rightarrow> Haka" where
  "grown e d t = frame 2 t [] 3 (frame 1 0 loud 2 (listening e d (- 101)))"

text \<open>
  The instance right after the loud sample at clock \<open>0\<close>, and the recorded bar that sample
  appended, as the frame leaves it.
\<close>

definition sampled_at_0 :: "(real \<Rightarrow> real) \<Rightarrow> real \<Rightarrow> Haka" where
  "sampled_at_0 e d = frame 1 0 loud 2 (listening e d (- 101))"

definition loud_bar :: "(real \<Rightarrow> real) \<Rightarrow> Bar" where
  "loud_bar e = \<lparr>bar_x = 93, bar_y = 50 - 50 * e 0 / 2, bar_width = 3, bar_height = 50 * e 0,
       targetHeight = 50, created = 0, status = recorded\<rparr>"


definition reversed :: Haka where
  "reversed = demo\<lparr>barGap := - 4, scrollSpeed := - 1\<rparr>"

definition reversed_listening :: Haka where
  "reversed_listening = start (Stream 0 0 [] 1) reversed"


text \<open>A block of samples that are all \<open>0\<close>.\<close>

definition silence :: "real list" where
  "silence = replicate 512 0"

text \<open>A quadratic ease-in: monotone on \<open>[0, 1]\<close>, not on the reals.\<close>

definition easeInQuad :: "real \<Rightarrow> real" where
  "easeInQuad p = p * p"

section \<open>The fields after construction\<close>

lemma constructor_fields:
  assumes "constructor options dpr = Inr h"
  shows "timeOffset h = or_number (opt_timeOffset options) 100"
    and "barWidth h = or_number (opt_barWidth options) 3"
    and "barGap h = or_number (opt_barGap options) 10"
    and "scrollSpeed h = or_number (opt_scrollSpeed options) 1"
    and "barColor h = or_string (opt_barColor options) ''#FFFFFF''"
    and "dotColor h = or_string (opt_dotColor options) ''#666666''"
    and "blackDotColor h = or_string (opt_blackDotColor options) ''#000000''"
    and "noiseThreshold h = nullish_number (opt_noiseThreshold options) 0.01"
    and "easing h = or_function (opt_easing options) easeInOutCubic"
    and "expandDuration h = or_number (opt_expandDuration options) 200"
    and "width h = offsetWidth (opt_canvas options)"
    and "height h = offsetHeight (opt_canvas options)"
    and "bars h = []"
    and "analyser h = None"
    and "frequencyArray h = None"
    and "animationFrameId h = None"
    and "pendingFrames h = []"
  using assms
  by (auto simp: constructor_def setupCanvas_def Let_def split: option.splits)

lemma constructor_no_options: "constructor no_options None = Inr demo"
  by (simp add: constructor_def no_options_def demo_def demo_canvas_def setupCanvas_def
      scale_def Let_def or_number_def or_string_def or_function_def nullish_number_def)

lemma constructor_zero_options:
  "constructor zero_options None = Inr (demo\<lparr>noiseThreshold := 0\<rparr>)"
  by (simp add: constructor_def zero_options_def demo_def demo_canvas_def setupCanvas_def
      scale_def Let_def or_number_def or_string_def or_function_def nullish_number_def)

section \<open>What a frame does to the timeline\<close>

lemma advance_eq:
  "advance now h bar =
     (if status bar = placeholder then bar\<lparr>bar_x := bar_x bar - scrollSpeed h\<rparr>
      else bar\<lparr>bar_height := targetHeight bar * progress now h bar,
               bar_y := height h / 2 - targetHeight bar * progress now h bar / 2,
               bar_x := bar_x bar - scrollSpeed h\<rparr>)"
  by (simp add: advance_def animate_bar_def progress_def Let_def)

lemma advance_fields [simp]:
  "bar_x (advance now h bar) = bar_x bar - scrollSpeed h"
  "bar_width (advance now h bar) = bar_width bar"
  "targetHeight (advance now h bar) = targetHeight bar"
  "created (advance now h bar) = created bar"
  "status (advance now h bar) = status bar"
  by (simp_all add: advance_eq)

lemma advance_height:
  "bar_height (advance now h bar) =
     (if status bar = placeholder then bar_height bar else targetHeight bar * progress now h bar)"
  by (simp add: advance_eq)

text \<open>The loop changes the context and the bars, nothing else.\<close>

lemma same_settings_refl [simp]: "same_settings h h"
  by (simp add: same_settings_def)

lemma same_settings_trans: "same_settings a b \<Longrightarrow> same_settings b c \<Longrightarrow> same_settings a c"
  by (simp add: same_settings_def)

lemma advance_cong: "same_settings h h' \<Longrightarrow> advance now h' = advance now h"
  by (rule ext) (simp add: advance_eq progress_def same_settings_def)

lemma animate_body_settings: "same_settings h (animate_body now i h)"
  by (simp add: animate_body_def same_settings_def split: prod.splits)

lemma animate_body_bars:
  "bars (animate_body now i h) =
     (if culled (advance now h (bars h ! i))
      then take i (bars h) @ drop (Suc i) (bars h)
      else (bars h)[i := advance now h (bars h ! i)])"
  by (simp add: animate_body_def advance_def culled_def split: prod.splits)

lemma animate_body_rest:
  "lastDataCollectionTime (animate_body now i h) = lastDataCollectionTime h"
  "frequencyArray (animate_body now i h) = frequencyArray h"
  "animationFrameId (animate_body now i h) = animationFrameId h"
  "pendingFrames (animate_body now i h) = pendingFrames h"
  "console (animate_body now i h) = console h"
  "mediaRequests (animate_body now i h) = mediaRequests h"
  by (simp_all add: animate_body_def split: prod.splits)

lemma animate_loop_settings: "same_settings h (animate_loop now k h)"
proof (induction k arbitrary: h)
  case 0
  show ?case by simp
next
  case (Suc k)
  have "same_settings h (animate_body now k h)" by (rule animate_body_settings)
  moreover have "same_settings (animate_body now k h) (animate_loop now k (animate_body now k h))"
    by (rule Suc.IH)
  ultimately show ?case by (simp add: same_settings_def)
qed

lemma animate_loop_rest:
  "lastDataCollectionTime (animate_loop now k h) = lastDataCollectionTime h"
  "frequencyArray (animate_loop now k h) = frequencyArray h"
  "animationFrameId (animate_loop now k h) = animationFrameId h"
  "pendingFrames (animate_loop now k h) = pendingFrames h"
  "console (animate_loop now k h) = console h"
  "mediaRequests (animate_loop now k h) = mediaRequests h"
  by (induction k arbitrary: h; simp add: animate_body_rest)+

lemma animate_loop_bars:
  "k \<le> length (bars h) \<Longrightarrow>
   bars (animate_loop now k h) =
     filter (\<lambda>b. \<not> culled b) (map (advance now h) (take k (bars h))) @ drop k (bars h)"
proof (induction k arbitrary: h)
  case 0
  show ?case by simp
next
  case (Suc k)
  let ?h = "animate_body now k h"
  let ?b = "advance now h (bars h ! k)"
  have k: "k < length (bars h)" using Suc.prems by simp
  have adv: "advance now ?h = advance now h"
    by (rule advance_cong) (rule animate_body_settings)
  have tk: "take k (bars ?h) = take k (bars h)"
    using k by (simp add: animate_body_bars)
  have dk: "drop k (bars ?h) = (if culled ?b then [] else [?b]) @ drop (Suc k) (bars h)"
    using k by (simp add: animate_body_bars drop_update_swap Cons_nth_drop_Suc[symmetric] del: Cons_nth_drop_Suc)
  have len: "k \<le> length (bars ?h)"
    using k by (auto simp add: animate_body_bars)
  have "bars (animate_loop now (Suc k) h) = bars (animate_loop now k ?h)" by simp
  also have "\<dots> = filter (\<lambda>b. \<not> culled b) (map (advance now h) (take k (bars h)))
       @ (if culled ?b then [] else [?b]) @ drop (Suc k) (bars h)"
    using Suc.IH[OF len] by (simp only: adv tk dk)
  also have "\<dots> = filter (\<lambda>b. \<not> culled b) (map (advance now h) (take (Suc k) (bars h)))
       @ drop (Suc k) (bars h)"
    using k by (simp add: take_Suc_conv_app_nth)
  finally show ?case .
qed

lemma animate_sample_settings: "same_settings h (animate_sample now wave h)"
  by (simp add: animate_sample_def same_settings_def Let_def)

lemma animate_bars:
  "bars (animate now wave frameId h) =
     filter (\<lambda>b. \<not> culled b) (map (advance now h) (bars (animate_sample now wave h)))"
proof -
  let ?h1 = "h\<lparr>ctx := clearRect 0 0 (width h) (height h) (ctx h)\<rparr>"
  have s1: "same_settings h ?h1" by (simp add: same_settings_def)
  have b1: "bars (animate_sample now wave ?h1) = bars (animate_sample now wave h)"
    by (simp add: animate_sample_def sample_due_def Let_def)
  have "same_settings h (animate_sample now wave ?h1)"
    using s1 animate_sample_settings by (rule same_settings_trans)
  then have adv: "advance now (animate_sample now wave ?h1) = advance now h"
    by (rule advance_cong)
  show ?thesis
    by (simp add: animate_def Let_def animate_loop_bars adv b1)
qed

lemma animate_settings: "same_settings h (animate now wave frameId h)"
proof -
  let ?h1 = "h\<lparr>ctx := clearRect 0 0 (width h) (height h) (ctx h)\<rparr>"
  let ?h2 = "animate_sample now wave ?h1"
  have "same_settings h ?h1" by (simp add: same_settings_def)
  moreover have "same_settings ?h1 ?h2" by (rule animate_sample_settings)
  moreover have "same_settings ?h2 (animate_loop now (length (bars ?h2)) ?h2)"
    by (rule animate_loop_settings)
  ultimately show ?thesis
    by (simp add: animate_def Let_def same_settings_def)
qed

section \<open>Taking a sample\<close>

lemma peak_loop_fold: "peak_loop m vs = fold max vs m"
  by (induction vs arbitrary: m) (auto simp: max_def)

lemma peak_loop_max: "peak_loop m vs = Max (insert m (set vs))"
proof -
  have "Max (set (m # vs)) = fold max vs m" by (rule Max.set_eq_fold)
  then show ?thesis by (simp add: peak_loop_fold)
qed

lemma peak_loop_nonneg: "0 \<le> m \<Longrightarrow> 0 \<le> peak_loop m vs"
  by (induction vs arbitrary: m) auto

lemma peak_loop_nonpositive: "\<forall>v \<in> set vs. v \<le> m \<Longrightarrow> peak_loop m vs = m"
  by (induction vs arbitrary: m) auto

lemma getFloatTimeDomainData_full:
  "length wave = length arr \<Longrightarrow> getFloatTimeDomainData wave arr = wave"
  by (simp add: getFloatTimeDomainData_def)

lemma animate_sample_due:
  "sample_due now h \<Longrightarrow>
   animate_sample now wave h =
     h\<lparr>lastDataCollectionTime := now,
       frequencyArray := Some (getFloatTimeDomainData wave (the (frequencyArray h))),
       bars := bars h @
         [\<lparr>bar_x = width h, bar_y = 0, bar_width = barWidth h, bar_height = 0,
           targetHeight =
             of_int \<lfloor>peak_loop 0 (getFloatTimeDomainData wave (the (frequencyArray h)))
                       * height h * 1.2\<rfloor>,
           created = now, status = recorded\<rparr>]\<rparr>"
  by (simp add: animate_sample_def Let_def)

lemma animate_sample_not_due: "\<not> sample_due now h \<Longrightarrow> animate_sample now wave h = h"
  by (simp add: animate_sample_def)

lemma sample_due_ctx [simp]: "sample_due now (h\<lparr>ctx := c\<rparr>) = sample_due now h"
  by (simp add: sample_due_def)

lemma animate_lastDataCollectionTime:
  "lastDataCollectionTime (animate now wave frameId h) =
     (if sample_due now h then now else lastDataCollectionTime h)"
  by (simp add: animate_def Let_def animate_loop_rest animate_sample_def)

lemma animate_sample_bars:
  "bars (animate_sample now wave h) =
     bars h @ (if sample_due now h then
       [\<lparr>bar_x = width h, bar_y = 0, bar_width = barWidth h, bar_height = 0,
         targetHeight =
           of_int \<lfloor>peak_loop 0 (getFloatTimeDomainData wave (the (frequencyArray h)))
                     * height h * 1.2\<rfloor>,
         created = now, status = recorded\<rparr>] else [])"
  by (simp add: animate_sample_def Let_def)

lemma animate_fields [simp]:
  "width (animate now wave frameId h) = width h"
  "height (animate now wave frameId h) = height h"
  "barWidth (animate now wave frameId h) = barWidth h"
  "barGap (animate now wave frameId h) = barGap h"
  "scrollSpeed (animate now wave frameId h) = scrollSpeed h"
  "expandDuration (animate now wave frameId h) = expandDuration h"
  "noiseThreshold (animate now wave frameId h) = noiseThreshold h"
  "easing (animate now wave frameId h) = easing h"
  "analyser (animate now wave frameId h) = analyser h"
  using animate_settings[of h now wave frameId] by (simp_all add: same_settings_def)

lemma animate_frequencyArray:
  "frequencyArray (animate now wave frameId h) =
     (if sample_due now h then Some (getFloatTimeDomainData wave (the (frequencyArray h)))
      else frequencyArray h)"
  by (simp add: animate_def Let_def animate_loop_rest animate_sample_def)

lemma animate_frequencyArray_None [simp]:
  "frequencyArray (animate now wave frameId h) = None \<longleftrightarrow> frequencyArray h = None"
  by (auto simp: animate_frequencyArray sample_due_def)

lemma animate_timeOffset [simp]: "timeOffset (animate now wave frameId h) = timeOffset h"
  using animate_settings[of h now wave frameId] by (simp add: same_settings_def)

lemma no_sample_after:
  assumes "a \<le> lastDataCollectionTime h"
    and "\<forall>f \<in> set fs. fst f \<le> a + timeOffset h"
  shows "samples_taken fs h = 0"
  using assms
proof (induction fs arbitrary: h)
  case Nil
  show ?case by simp
next
  case (Cons f fs)
  let ?h = "animate (fst f) (fst (snd f)) (snd (snd f)) h"
  have early: "fst f \<le> a + timeOffset h" using Cons.prems(2) by simp
  have nd: "\<not> sample_due (fst f) h"
    using early Cons.prems(1) by (simp add: sample_due_def)
  have "a \<le> lastDataCollectionTime ?h"
    using nd Cons.prems(1) by (simp add: animate_lastDataCollectionTime)
  moreover have "\<forall>g \<in> set fs. fst g \<le> a + timeOffset ?h"
    using Cons.prems(2) by simp
  ultimately have "samples_taken fs ?h = 0" by (rule Cons.IH)
  with nd show ?case by simp
qed

lemma one_sample_in_window:
  assumes "\<forall>f \<in> set fs. a \<le> fst f \<and> fst f \<le> a + timeOffset h"
  shows "samples_taken fs h \<le> 1"
  using assms
proof (induction fs arbitrary: h)
  case Nil
  show ?case by simp
next
  case (Cons f fs)
  let ?h = "animate (fst f) (fst (snd f)) (snd (snd f)) h"
  have window: "\<forall>g \<in> set fs. a \<le> fst g \<and> fst g \<le> a + timeOffset ?h"
    using Cons.prems by simp
  show ?case
  proof (cases "sample_due (fst f) h")
    case True
    then have "lastDataCollectionTime ?h = fst f"
      by (simp add: animate_lastDataCollectionTime)
    moreover have "a \<le> fst f" using Cons.prems by simp
    ultimately have "a \<le> lastDataCollectionTime ?h" by simp
    moreover have "\<forall>g \<in> set fs. fst g \<le> a + timeOffset ?h" using window by simp
    ultimately have "samples_taken fs ?h = 0" by (rule no_sample_after)
    then show ?thesis by simp
  next
    case False
    with Cons.IH[OF window] show ?thesis by simp
  qed
qed

section \<open>The seeding loop\<close>

lemma placeholder_bar_bars [simp]: "placeholder_bar (h\<lparr>bars := bs\<rparr>) = placeholder_bar h"
  by (rule ext) (simp add: placeholder_bar_def)

lemma initialize_loop_finite:
  "initialize_loop (Finite n) i h =
     Some (h\<lparr>bars := bars h @ map (placeholder_bar h) [i..<nat n]\<rparr>)"
proof (induction "nat n - i" arbitrary: i h)
  case 0
  then have "\<not> int i < n" by simp
  moreover have "[i..<nat n] = []" using 0 by simp
  ultimately show ?case
    by (subst initialize_loop.simps) simp
next
  case (Suc d)
  then have lt: "int i < n" and d: "d = nat n - Suc i" by auto
  have upt: "[i..<nat n] = i # [Suc i..<nat n]"
    using Suc.hyps(2) by (simp add: upt_conv_Cons)
  show ?case
    by (subst initialize_loop.simps) (simp add: lt Suc.hyps(1)[OF d] upt)
qed

lemma initialize_loop_returns_finite:
  assumes "initialize_loop n i h = Some h'"
  shows "n \<noteq> PosInfinity"
proof (rule initialize_loop.raw_induct[where P = "\<lambda>n i h h'. n \<noteq> PosInfinity", OF _ assms])
  fix loop :: "jsnum \<Rightarrow> nat \<Rightarrow> Haka \<Rightarrow> Haka option" and n i h h'
  assume IH: "\<And>n i h h'. loop n i h = Some h' \<Longrightarrow> n \<noteq> PosInfinity"
    and step: "(if less_count i n then loop n (Suc i) (h\<lparr>bars := bars h @ [placeholder_bar h i]\<rparr>)
               else Some h) = Some h'"
  show "n \<noteq> PosInfinity"
  proof
    assume inf: "n = PosInfinity"
    with step have "loop n (Suc i) (h\<lparr>bars := bars h @ [placeholder_bar h i]\<rparr>) = Some h'"
      by simp
    from IH[OF this] inf show False by simp
  qed
qed

lemma initialize_loop_infinite: "initialize_loop PosInfinity i h = None"
  using initialize_loop_returns_finite[of PosInfinity i h] by (cases "initialize_loop PosInfinity i h") auto

lemma initialize_loop_nothing:
  "initialize_loop NegInfinity i h = Some h" "initialize_loop NaN i h = Some h"
  by (subst initialize_loop.simps, simp)+

lemma drawInitialFrame_bars [simp]: "bars (drawInitialFrame h) = bars h"
  by (simp add: drawInitialFrame_def Let_def)

lemma drawInitialFrame_settings: "same_settings h (drawInitialFrame h)"
  by (simp add: drawInitialFrame_def Let_def same_settings_def)

lemma initialize_some:
  assumes "barWidth h + barGap h \<noteq> 0"
  shows "initialize h =
     Some (drawInitialFrame
       (h\<lparr>bars := map (placeholder_bar h)
                     [0..<nat \<lceil>width h / (barWidth h + barGap h)\<rceil>]\<rparr>))"
  using assms by (simp add: initialize_def ceil_div_def initialize_loop_finite)

lemma initialize_diverges:
  "barWidth h + barGap h = 0 \<Longrightarrow> 0 < width h \<Longrightarrow> initialize h = None"
  by (simp add: initialize_def ceil_div_def initialize_loop_infinite)

lemma initialize_zero_width:
  "barWidth h + barGap h = 0 \<Longrightarrow> width h \<le> 0 \<Longrightarrow>
   initialize h = Some (drawInitialFrame (h\<lparr>bars := []\<rparr>))"
  by (simp add: initialize_def ceil_div_def initialize_loop_nothing)

lemma upt_8: "[0..<8] = [0, 1, 2, 3, 4, 5, 6, 7]"
  by (simp add: upt_rec)

section \<open>The example instances\<close>

lemma constructor_fast: "d \<noteq> 0 \<Longrightarrow> constructor (tuned_options e d) None = Inr (tuned e d)"
  by (simp add: constructor_def tuned_options_def no_options_def tuned_def demo_def
      demo_canvas_def setupCanvas_def scale_def Let_def or_number_def or_string_def
      or_function_def nullish_number_def)

lemma fast_fields [simp]:
  "width (tuned e d) = 100" "height (tuned e d) = 100" "barWidth (tuned e d) = 3"
  "barGap (tuned e d) = 10" "scrollSpeed (tuned e d) = 7" "timeOffset (tuned e d) = 100"
  "expandDuration (tuned e d) = d" "noiseThreshold (tuned e d) = 0.01"
  "easing (tuned e d) = e" "analyser (tuned e d) = None"
  "barColor (tuned e d) = ''#FFFFFF''" "dotColor (tuned e d) = ''#666666''"
  "blackDotColor (tuned e d) = ''#000000''"
  by (simp_all add: tuned_def demo_def)

lemma initialize_fast: "initialize (tuned e d) = Some (seeded e d)"
  by (simp add: initialize_some seeded_def)

lemma fast_seeded_settings: "same_settings (tuned e d) (seeded e d)"
  by (simp add: seeded_def same_settings_def drawInitialFrame_def Let_def)

lemma fast_seeded_bars:
  "bars (seeded e d) = [dot 0, dot 13, dot 26, dot 39, dot 52, dot 65, dot 78, dot 91]"
  by (simp add: seeded_def upt_8 placeholder_bar_def dot_def)

lemma fast_seeded_fields [simp]:
  "width (seeded e d) = 100" "height (seeded e d) = 100" "barWidth (seeded e d) = 3"
  "barGap (seeded e d) = 10" "scrollSpeed (seeded e d) = 7" "timeOffset (seeded e d) = 100"
  "expandDuration (seeded e d) = d" "noiseThreshold (seeded e d) = 0.01"
  "easing (seeded e d) = e" "analyser (seeded e d) = None"
  "barColor (seeded e d) = ''#FFFFFF''" "dotColor (seeded e d) = ''#666666''"
  "blackDotColor (seeded e d) = ''#000000''"
  using fast_seeded_settings[of e d] by (simp_all add: same_settings_def)

lemma advance_dot [simp]: "advance now h (dot px) = dot (px - scrollSpeed h)"
  by (simp add: advance_eq dot_def)

lemma culled_dot [simp]: "culled (dot px) \<longleftrightarrow> px + 3 < 0"
  by (simp add: culled_def dot_def)

lemma listening_bars:
  "bars (listening e d t) = [dot 6, dot 19, dot 32, dot 45, dot 58, dot 71, dot 84]"
  by (simp add: listening_def start_def soundAllowed_def animate_bars animate_sample_def
      sample_due_def fast_seeded_bars)

lemma listening_fields [simp]:
  "width (listening e d t) = 100" "height (listening e d t) = 100"
  "barWidth (listening e d t) = 3" "barGap (listening e d t) = 10"
  "scrollSpeed (listening e d t) = 7" "timeOffset (listening e d t) = 100"
  "expandDuration (listening e d t) = d" "noiseThreshold (listening e d t) = 0.01"
  "easing (listening e d t) = e"
  "barColor (listening e d t) = ''#FFFFFF''" "dotColor (listening e d t) = ''#666666''"
  "blackDotColor (listening e d t) = ''#000000''"
  "analyser (listening e d t) = Some \<lparr>fftSize = 512\<rparr>"
  "frequencyArray (listening e d t) = Some (replicate 512 0)"
  "lastDataCollectionTime (listening e d t) = t"
proof -
  let ?h = "(seeded e d)\<lparr>mediaRequests := Suc (mediaRequests (seeded e d)),
              analyser := Some \<lparr>fftSize = 512\<rparr>, frequencyArray := Some (replicate 512 0),
              lastDataCollectionTime := t\<rparr>"
  have eq: "listening e d t = animate t [] 1 ?h"
    by (simp add: listening_def start_def soundAllowed_def)
  have same: "same_settings ?h (listening e d t)"
    unfolding eq by (rule animate_settings)
  show "width (listening e d t) = 100" "height (listening e d t) = 100"
  "barWidth (listening e d t) = 3" "barGap (listening e d t) = 10"
  "scrollSpeed (listening e d t) = 7" "timeOffset (listening e d t) = 100"
  "expandDuration (listening e d t) = d" "noiseThreshold (listening e d t) = 0.01"
  "easing (listening e d t) = e"
  "barColor (listening e d t) = ''#FFFFFF''" "dotColor (listening e d t) = ''#666666''"
  "blackDotColor (listening e d t) = ''#000000''"
  "analyser (listening e d t) = Some \<lparr>fftSize = 512\<rparr>"
    using same by (simp_all add: same_settings_def)
  show "frequencyArray (listening e d t) = Some (replicate 512 0)"
    "lastDataCollectionTime (listening e d t) = t"
    unfolding eq
    by (simp_all add: animate_def Let_def animate_loop_rest animate_sample_def sample_due_def)
qed

lemma reach_listening: "d \<noteq> 0 \<Longrightarrow> reach t (listening e d t)"
proof -
  assume d: "d \<noteq> 0"
  have "reach t (tuned e d)"
    by (rule reach_new[OF constructor_fast[OF d]])
      (simp_all add: tuned_options_def no_options_def demo_canvas_def)
  then have "reach t (seeded e d)"
    using initialize_fast by (rule reach_initialize)
  then show ?thesis
    unfolding listening_def by (rule reach_start) simp_all
qed

lemma first_frame:
  "sample_due 0 (listening_since (- 101))"
  "bars (animate 0 [] 2 (listening_since (- 101))) =
     [dot (- 1), dot 12, dot 25, dot 38, dot 51, dot 64, dot 77,
      \<lparr>bar_x = 93, bar_y = 50, bar_width = 3, bar_height = 0, targetHeight = 0,
       created = 0, status = recorded\<rparr>]"
proof -
  show due: "sample_due 0 (listening_since (- 101))"
    by (simp add: sample_due_def listening_bars dot_def)
  have peak: "peak_loop 0 (replicate 512 (0 :: real)) = 0"
    by (rule peak_loop_nonpositive) simp
  show "bars (animate 0 [] 2 (listening_since (- 101))) =
     [dot (- 1), dot 12, dot 25, dot 38, dot 51, dot 64, dot 77,
      \<lparr>bar_x = 93, bar_y = 50, bar_width = 3, bar_height = 0, targetHeight = 0,
       created = 0, status = recorded\<rparr>]"
    by (simp add: animate_bars animate_sample_bars due listening_bars
        getFloatTimeDomainData_def peak advance_eq culled_def dot_def)
qed

lemma second_frame:
  "\<not> sample_due 50 (animate 0 [] 2 (listening_since (- 101)))"
  "bars (animate 50 [] 3 (animate 0 [] 2 (listening_since (- 101)))) =
     [dot 5, dot 18, dot 31, dot 44, dot 57, dot 70,
      \<lparr>bar_x = 86, bar_y = 50, bar_width = 3, bar_height = 0, targetHeight = 0,
       created = 0, status = recorded\<rparr>]"
proof -
  show nd: "\<not> sample_due 50 (animate 0 [] 2 (listening_since (- 101)))"
    by (simp add: sample_due_def first_frame animate_lastDataCollectionTime)
  show "bars (animate 50 [] 3 (animate 0 [] 2 (listening_since (- 101)))) =
     [dot 5, dot 18, dot 31, dot 44, dot 57, dot 70,
      \<lparr>bar_x = 86, bar_y = 50, bar_width = 3, bar_height = 0, targetHeight = 0,
       created = 0, status = recorded\<rparr>]"
    by (simp add: animate_bars[of 50] animate_sample_bars nd first_frame advance_eq culled_def
        dot_def progress_def)
qed

lemma third_frame:
  "sample_due 150 (animate 50 [] 3 (animate 0 [] 2 (listening_since (- 101))))"
  by (simp add: sample_due_def second_frame first_frame animate_lastDataCollectionTime)

section \<open>What a frame paints\<close>

lemma animate_bar_calls:
  "calls (snd (animate_bar now h bar)) = calls (ctx h) @ [paint now h bar]"
  by (simp add: paint_def animate_bar_def Let_def fillRect_def)

lemma paint_eq:
  "paint now h bar =
     (if status bar = placeholder then
        FillRect (blackDotColor h) (bar_x bar) (height h / 2 - 1) (bar_width bar) 2
      else if targetHeight bar < height h * noiseThreshold h then
        FillRect (dotColor h) (bar_x bar) (height h / 2 - 1) (bar_width bar) 2
      else
        FillRect (barColor h) (bar_x bar)
          (height h / 2 - bar_height (advance now h bar) / 2) (bar_width bar)
          (bar_height (advance now h bar)))"
  by (simp add: paint_def animate_bar_def Let_def fillRect_def advance_def)

lemma paint_cong: "same_settings h h' \<Longrightarrow> paint now h' = paint now h"
  by (rule ext) (simp add: paint_eq advance_eq progress_def same_settings_def)

lemma animate_body_calls:
  "calls (ctx (animate_body now i h)) = calls (ctx h) @ [paint now h (bars h ! i)]"
  by (simp add: animate_body_def animate_bar_calls split: prod.splits)
    (metis animate_bar_calls snd_conv)

lemma animate_loop_calls:
  "k \<le> length (bars h) \<Longrightarrow>
   calls (ctx (animate_loop now k h)) = calls (ctx h) @ map (paint now h) (rev (take k (bars h)))"
proof (induction k arbitrary: h)
  case 0
  show ?case by simp
next
  case (Suc k)
  let ?h = "animate_body now k h"
  have k: "k < length (bars h)" using Suc.prems by simp
  have pnt: "paint now ?h = paint now h"
    by (rule paint_cong) (rule animate_body_settings)
  have tk: "take k (bars ?h) = take k (bars h)"
    using k by (simp add: animate_body_bars)
  have len: "k \<le> length (bars ?h)"
    using k by (auto simp add: animate_body_bars)
  have "calls (ctx (animate_loop now (Suc k) h)) = calls (ctx (animate_loop now k ?h))" by simp
  also have "\<dots> = calls (ctx ?h) @ map (paint now h) (rev (take k (bars h)))"
    using Suc.IH[OF len] by (simp only: pnt tk)
  also have "\<dots> = calls (ctx h) @ map (paint now h) (rev (take (Suc k) (bars h)))"
    using k by (simp add: animate_body_calls take_Suc_conv_app_nth)
  finally show ?case .
qed

lemma animate_calls:
  "calls (ctx (animate now wave frameId h)) =
     calls (ctx h) @ ClearRect 0 0 (width h) (height h)
       # map (paint now h) (rev (bars (animate_sample now wave h)))"
proof -
  let ?h1 = "h\<lparr>ctx := clearRect 0 0 (width h) (height h) (ctx h)\<rparr>"
  let ?h2 = "animate_sample now wave ?h1"
  have s1: "same_settings h ?h1" by (simp add: same_settings_def)
  have b1: "bars ?h2 = bars (animate_sample now wave h)"
    by (simp add: animate_sample_def Let_def)
  have c2: "calls (ctx ?h2) = calls (ctx h) @ [ClearRect 0 0 (width h) (height h)]"
    by (simp add: animate_sample_def Let_def clearRect_def)
  have "same_settings h ?h2"
    using s1 animate_sample_settings by (rule same_settings_trans)
  then have pnt: "paint now ?h2 = paint now h"
    by (rule paint_cong)
  have "calls (ctx (animate now wave frameId h)) = calls (ctx (animate_loop now (length (bars ?h2)) ?h2))"
    by (simp add: animate_def Let_def)
  also have "\<dots> = calls (ctx ?h2) @ map (paint now ?h2) (rev (take (length (bars ?h2)) (bars ?h2)))"
    by (rule animate_loop_calls) simp
  finally show ?thesis
    by (simp add: pnt b1 c2)
qed

section \<open>Reachable instances are well formed\<close>

lemma sampled_bar_eq:
  "sample_due now h \<Longrightarrow>
   sampled_bar now wave h =
     \<lparr>bar_x = width h, bar_y = 0, bar_width = barWidth h, bar_height = 0,
      targetHeight =
        of_int \<lfloor>peak_loop 0 (getFloatTimeDomainData wave (the (frequencyArray h)))
                  * height h * 1.2\<rfloor>,
      created = now, status = recorded\<rparr>"
  by (simp add: sampled_bar_def animate_sample_bars)

lemma animate_sample_bars':
  "bars (animate_sample now wave h) =
     bars h @ (if sample_due now h then [sampled_bar now wave h] else [])"
  by (simp add: sampled_bar_def animate_sample_bars)

lemma sampled_bar_fields:
  assumes "sample_due now h"
  shows "bar_x (sampled_bar now wave h) = width h"
    and "bar_width (sampled_bar now wave h) = barWidth h"
    and "bar_height (sampled_bar now wave h) = 0"
    and "created (sampled_bar now wave h) = now"
    and "status (sampled_bar now wave h) = recorded"
    and "0 \<le> height h \<Longrightarrow> 0 \<le> targetHeight (sampled_bar now wave h)"
  using assms by (simp_all add: sampled_bar_eq peak_loop_nonneg)

text \<open>Every bar after a frame is an advanced bar of the timeline or the advanced sample.\<close>

lemma animate_bars_origin:
  assumes "bar \<in> set (bars (animate now wave frameId h))"
  obtains b where "bar = advance now h b" "b \<in> set (bars h)"
  | "bar = advance now h (sampled_bar now wave h)" "sample_due now h"
  using assms by (auto simp: animate_bars animate_sample_bars' split: if_splits)

lemma wellformed_animate:
  assumes "wellformed t h" "t \<le> now"
  shows "wellformed now (animate now wave frameId h)"
  unfolding wellformed_def
proof (intro conjI ballI)
  fix bar assume "bar \<in> set (bars (animate now wave frameId h))"
  then show "bar_width bar = barWidth (animate now wave frameId h)"
    using assms by (elim animate_bars_origin) (auto simp: wellformed_def sampled_bar_fields)
next
  fix bar assume "bar \<in> set (bars (animate now wave frameId h))"
  then show "0 \<le> targetHeight bar"
    using assms by (elim animate_bars_origin) (auto simp: wellformed_def sampled_bar_fields)
next
  fix bar assume "bar \<in> set (bars (animate now wave frameId h))"
  then show "status bar = recorded \<longrightarrow> created bar \<le> now"
    using assms by (elim animate_bars_origin) (auto simp: wellformed_def sampled_bar_fields)
next
  fix bar assume "bar \<in> set (bars (animate now wave frameId h))"
  then show "status bar = placeholder \<longrightarrow> bar_height bar = 0 \<and> targetHeight bar = 0"
    using assms
    by (elim animate_bars_origin) (auto simp: wellformed_def sampled_bar_fields advance_height)
qed (use assms in \<open>simp_all add: wellformed_def\<close>)

lemma initialize_result:
  assumes "initialize h = Some h'"
  obtains n where "h' = drawInitialFrame (h\<lparr>bars := map (placeholder_bar h) [0..<n]\<rparr>)"
proof (cases "barWidth h + barGap h = 0")
  case False
  from initialize_some[OF this] assms that show ?thesis by auto
next
  case True
  then have "\<not> 0 < width h" using assms initialize_diverges by fastforce
  with True assms initialize_zero_width[of h] that[of 0] show ?thesis by simp
qed

lemma initialize_settings: "initialize h = Some h' \<Longrightarrow> same_settings h h'"
  by (erule initialize_result) (simp add: drawInitialFrame_def Let_def same_settings_def)

lemma start_fields [simp]:
  "width (start settled h) = width h" "height (start settled h) = height h"
  "barWidth (start settled h) = barWidth h" "barGap (start settled h) = barGap h"
  "scrollSpeed (start settled h) = scrollSpeed h"
  "expandDuration (start settled h) = expandDuration h"
  "noiseThreshold (start settled h) = noiseThreshold h"
  "easing (start settled h) = easing h" "timeOffset (start settled h) = timeOffset h"
  by (cases settled; simp add: start_def soundAllowed_def soundNotAllowed_def)+

lemma stop_fields [simp]:
  "width (stop h) = width h" "height (stop h) = height h"
  "barWidth (stop h) = barWidth h" "barGap (stop h) = barGap h"
  "scrollSpeed (stop h) = scrollSpeed h" "expandDuration (stop h) = expandDuration h"
  "noiseThreshold (stop h) = noiseThreshold h" "easing (stop h) = easing h"
  "timeOffset (stop h) = timeOffset h" "bars (stop h) = bars h"
  by (simp_all add: stop_def split: option.splits)

lemma start_rejected_bars [simp]: "bars (start (Rejected err) h) = bars h"
  by (simp add: start_def soundNotAllowed_def)

lemma reach_wellformed: "reach t h \<Longrightarrow> wellformed t h"
proof (induction rule: reach.induct)
  case (reach_new options dpr h t)
  then show ?case
    using constructor_fields[OF reach_new(1)]
    by (auto simp: wellformed_def or_number_def split: option.splits)
next
  case (reach_initialize t h h')
  from reach_initialize(2) obtain n where
    h': "h' = drawInitialFrame (h\<lparr>bars := map (placeholder_bar h) [0..<n]\<rparr>)"
    by (rule initialize_result)
  show ?case
    using reach_initialize(3)
    by (auto simp: h' wellformed_def drawInitialFrame_def Let_def placeholder_bar_def)
next
  case (reach_start t h now1 now2 wave frameId)
  let ?h = "h\<lparr>mediaRequests := Suc (mediaRequests h), analyser := Some \<lparr>fftSize = 512\<rparr>,
              frequencyArray := Some (replicate 512 0), lastDataCollectionTime := now1\<rparr>"
  have "wellformed t ?h" using reach_start.IH by (simp add: wellformed_def)
  moreover have "t \<le> now2" using reach_start by simp
  ultimately have "wellformed now2 (animate now2 wave frameId ?h)" by (rule wellformed_animate)
  then show ?case by (simp add: start_def soundAllowed_def)
next
  case (reach_rejected t h err)
  then show ?case by (simp add: wellformed_def)
next
  case (reach_frame t h frameId now wave frameId')
  have "wellformed t (h\<lparr>pendingFrames := removeAll frameId (pendingFrames h)\<rparr>)"
    using reach_frame.IH by (simp add: wellformed_def)
  then show ?case unfolding frame_def using reach_frame(3) by (rule wellformed_animate)
next
  case (reach_stop t h)
  then show ?case by (simp add: wellformed_def)
qed

section \<open>Frames run by the host\<close>

lemma animate_body_pending:
  "animate_body now i (h\<lparr>pendingFrames := p\<rparr>) = (animate_body now i h)\<lparr>pendingFrames := p\<rparr>"
  by (simp add: animate_body_def animate_bar_def Let_def split: prod.splits)

lemma animate_loop_pending:
  "animate_loop now k (h\<lparr>pendingFrames := p\<rparr>) = (animate_loop now k h)\<lparr>pendingFrames := p\<rparr>"
  by (induction k arbitrary: h) (simp_all add: animate_body_pending)

lemma sample_due_pending [simp]:
  "sample_due now (h\<lparr>pendingFrames := p\<rparr>) = sample_due now h"
  by (simp add: sample_due_def)

lemma animate_sample_pending:
  "animate_sample now wave (h\<lparr>pendingFrames := p\<rparr>) = (animate_sample now wave h)\<lparr>pendingFrames := p\<rparr>"
  by (simp add: animate_sample_def Let_def)

lemma animate_sample_ctx:
  "animate_sample now wave (h\<lparr>ctx := c\<rparr>) = (animate_sample now wave h)\<lparr>ctx := c\<rparr>"
  by (simp add: animate_sample_def Let_def)

lemma ctx_pending_swap:
  "(h\<lparr>pendingFrames := p\<rparr>)\<lparr>ctx := c\<rparr> = (h\<lparr>ctx := c\<rparr>)\<lparr>pendingFrames := p\<rparr>"
  by simp

lemma animate_pending:
  "animate now wave f (h\<lparr>pendingFrames := p\<rparr>) = (animate now wave f h)\<lparr>pendingFrames := p @ [f]\<rparr>"
proof -
  let ?h1 = "h\<lparr>ctx := clearRect 0 0 (width h) (height h) (ctx h)\<rparr>"
  let ?h2 = "animate_sample now wave ?h1"
  let ?h3 = "animate_loop now (length (bars ?h2)) ?h2"
  have "animate now wave f (h\<lparr>pendingFrames := p\<rparr>) =
          (let h2 = animate_sample now wave (?h1\<lparr>pendingFrames := p\<rparr>);
               h3 = animate_loop now (length (bars h2)) h2
           in h3\<lparr>animationFrameId := Some f, pendingFrames := pendingFrames h3 @ [f]\<rparr>)"
    unfolding animate_def Let_def by (simp add: ctx_pending_swap)
  also have "\<dots> = (?h3\<lparr>pendingFrames := p\<rparr>)\<lparr>animationFrameId := Some f, pendingFrames := p @ [f]\<rparr>"
    by (simp only: animate_sample_pending Let_def animate_loop_pending) simp
  also have "\<dots> = (animate now wave f h)\<lparr>pendingFrames := p @ [f]\<rparr>"
    by (simp add: animate_def Let_def)
  finally show ?thesis .
qed

lemma frame_eq:
  "frame i now wave f h =
     (animate now wave f h)\<lparr>pendingFrames := removeAll i (pendingFrames h) @ [f]\<rparr>"
  by (simp add: frame_def animate_pending)

lemma frame_fields [simp]:
  "bars (frame i now wave f h) = bars (animate now wave f h)"
  "width (frame i now wave f h) = width h"
  "height (frame i now wave f h) = height h"
  "barWidth (frame i now wave f h) = barWidth h"
  "barGap (frame i now wave f h) = barGap h"
  "scrollSpeed (frame i now wave f h) = scrollSpeed h"
  "expandDuration (frame i now wave f h) = expandDuration h"
  "noiseThreshold (frame i now wave f h) = noiseThreshold h"
  "easing (frame i now wave f h) = easing h"
  "timeOffset (frame i now wave f h) = timeOffset h"
  "analyser (frame i now wave f h) = analyser h"
  "pendingFrames (frame i now wave f h) = removeAll i (pendingFrames h) @ [f]"
  "lastDataCollectionTime (frame i now wave f h) = lastDataCollectionTime (animate now wave f h)"
  "frequencyArray (frame i now wave f h) = frequencyArray (animate now wave f h)"
  "ctx (frame i now wave f h) = ctx (animate now wave f h)"
  by (simp_all add: frame_eq)

lemma sample_due_frame [simp]:
  "sample_due t (frame i now wave f h) = sample_due t (animate now wave f h)"
  by (simp add: sample_due_def)

lemma animate_frame [simp]:
  "bars (animate t w g (frame i now wave f h)) = bars (animate t w g (animate now wave f h))"
  by (simp add: frame_eq animate_pending)

section \<open>Growth stays within the target\<close>

lemma easeInOutCubic_range: "unit_range easeInOutCubic"
  unfolding unit_range_def
proof (intro allI impI)
  fix p :: real assume p: "0 \<le> p \<and> p \<le> 1"
  show "0 \<le> easeInOutCubic p \<and> easeInOutCubic p \<le> 1"
  proof (cases "p < 0.5")
    case True
    have "p ^ 3 \<le> (1 / 2) ^ 3" using p True by (intro power_mono) simp_all
    moreover have "0 \<le> p ^ 3" using p by simp
    ultimately show ?thesis using True
      by (simp add: easeInOutCubic_def power3_eq_cube algebra_simps)
  next
    case False
    let ?u = "- 2 * p + 2"
    have u: "0 \<le> ?u" "?u \<le> 1" using p False by simp_all
    have "0 \<le> ?u ^ 3" using u by simp
    moreover have "?u ^ 3 \<le> 1" using u by (rule power_le_one)
    ultimately show ?thesis using False by (simp add: easeInOutCubic_def)
  qed
qed

lemma progress_range:
  assumes "0 < expandDuration h" "unit_range (easing h)" "created bar \<le> now"
  shows "0 \<le> progress now h bar \<and> progress now h bar \<le> 1"
proof -
  have "0 \<le> (now - created bar) / expandDuration h" using assms by simp
  then have "0 \<le> min ((now - created bar) / expandDuration h) 1 \<and>
             min ((now - created bar) / expandDuration h) 1 \<le> 1" by simp
  with assms(2) show ?thesis unfolding progress_def unit_range_def by blast
qed

lemma grown_bounds:
  assumes "0 \<le> target" "0 \<le> p" "p \<le> (1::real)"
  shows "0 \<le> target * p \<and> target * p \<le> target"
  using assms by (simp add: mult_left_le)

lemma heights_animate:
  assumes wf: "wellformed t h" and "t \<le> now" and d: "0 < expandDuration h"
    and e: "unit_range (easing h)" and ok: "heights_bounded h"
  shows "heights_bounded (animate now wave frameId h)"
  unfolding heights_bounded_def
proof
  fix bar assume "bar \<in> set (bars (animate now wave frameId h))"
  then show "0 \<le> bar_height bar \<and> bar_height bar \<le> targetHeight bar"
  proof (cases rule: animate_bars_origin)
    case (1 b)
    show ?thesis
    proof (cases "status b")
      case placeholder
      with 1 ok show ?thesis by (simp add: advance_height heights_bounded_def)
    next
      case recorded
      with 1 wf \<open>t \<le> now\<close> have "created b \<le> now" "0 \<le> targetHeight b"
        by (auto simp: wellformed_def)
      with progress_range[OF d e] grown_bounds show ?thesis
        using 1 recorded by (simp add: advance_height)
    qed
  next
    case 2
    have "created (sampled_bar now wave h) \<le> now" "0 \<le> targetHeight (sampled_bar now wave h)"
      using 2 wf by (simp_all add: sampled_bar_fields wellformed_def)
    with progress_range[OF d e] grown_bounds show ?thesis
      using 2 by (simp add: advance_height sampled_bar_fields)
  qed
qed

lemma reach_heights:
  "reach t h \<Longrightarrow> 0 < expandDuration h \<Longrightarrow> unit_range (easing h) \<Longrightarrow> heights_bounded h"
proof (induction rule: reach.induct)
  case (reach_new options dpr h t)
  then show ?case
    using constructor_fields[OF reach_new(1)] by (simp add: heights_bounded_def)
next
  case (reach_initialize t h h')
  from reach_initialize(2) obtain n where
    h': "h' = drawInitialFrame (h\<lparr>bars := map (placeholder_bar h) [0..<n]\<rparr>)"
    by (rule initialize_result)
  show ?case
    by (auto simp: h' heights_bounded_def placeholder_bar_def)
next
  case (reach_start t h now1 now2 wave frameId)
  let ?h = "h\<lparr>mediaRequests := Suc (mediaRequests h), analyser := Some \<lparr>fftSize = 512\<rparr>,
              frequencyArray := Some (replicate 512 0), lastDataCollectionTime := now1\<rparr>"
  have "wellformed t ?h" using reach_wellformed[OF reach_start(1)] by (simp add: wellformed_def)
  moreover have "t \<le> now2" using reach_start by simp
  moreover have "0 < expandDuration ?h" "unit_range (easing ?h)" "heights_bounded ?h"
    using reach_start by (simp_all add: heights_bounded_def)
  ultimately have "heights_bounded (animate now2 wave frameId ?h)" by (rule heights_animate)
  then show ?case by (simp add: start_def soundAllowed_def)
next
  case (reach_rejected t h err)
  then show ?case by (simp add: heights_bounded_def)
next
  case (reach_frame t h frameId now wave frameId')
  have "wellformed t h" using reach_frame by (simp add: reach_wellformed)
  moreover have "0 < expandDuration h" "unit_range (easing h)" "heights_bounded h"
    using reach_frame by simp_all
  ultimately have "heights_bounded (animate now wave frameId' h)"
    using reach_frame(3) by (intro heights_animate[of t]) simp_all
  then show ?case by (simp add: heights_bounded_def)
next
  case (reach_stop t h)
  then show ?case by (simp add: heights_bounded_def)
qed

section \<open>A bar that grows\<close>

lemma pending_seeded [simp]: "pendingFrames (seeded e d) = []"
  by (simp add: seeded_def drawInitialFrame_def Let_def tuned_def demo_def)

lemma animate_pendingFrames [simp]:
  "pendingFrames (animate now wave f h) = pendingFrames h @ [f]"
  by (simp add: animate_def Let_def animate_loop_rest animate_sample_def)

lemma pending_listening [simp]: "pendingFrames (listening e d t) = [1]"
  by (simp add: listening_def start_def soundAllowed_def)

lemma peak_loud: "peak_loop 0 loud = 5 / 12"
  by (simp add: peak_loop_max loud_def)

lemma loud_frame:
  "sample_due 0 (listening e d (- 101))"
  "bars (animate 0 loud 2 (listening e d (- 101))) =
     [dot (- 1), dot 12, dot 25, dot 38, dot 51, dot 64, dot 77,
      \<lparr>bar_x = 93, bar_y = 50 - 50 * e 0 / 2, bar_width = 3, bar_height = 50 * e 0,
       targetHeight = 50, created = 0, status = recorded\<rparr>]"
proof -
  show due: "sample_due 0 (listening e d (- 101))"
    by (simp add: sample_due_def listening_bars dot_def)
  have full: "getFloatTimeDomainData loud (replicate 512 0) = loud"
    by (rule getFloatTimeDomainData_full) (simp add: loud_def)
  show "bars (animate 0 loud 2 (listening e d (- 101))) =
     [dot (- 1), dot 12, dot 25, dot 38, dot 51, dot 64, dot 77,
      \<lparr>bar_x = 93, bar_y = 50 - 50 * e 0 / 2, bar_width = 3, bar_height = 50 * e 0,
       targetHeight = 50, created = 0, status = recorded\<rparr>]"
    by (simp add: animate_bars animate_sample_bars due listening_bars full peak_loud
        advance_eq culled_def dot_def progress_def)
qed

lemma grown_bars:
  "bars (grown e d t) =
     [dot 5, dot 18, dot 31, dot 44, dot 57, dot 70,
      \<lparr>bar_x = 86, bar_y = 50 - 50 * e (min (t / d) 1) / 2, bar_width = 3,
       bar_height = 50 * e (min (t / d) 1), targetHeight = 50, created = 0,
       status = recorded\<rparr>]"
proof -
  have nd: "\<not> sample_due t (animate 0 loud 2 (listening e d (- 101)))"
    by (simp add: sample_due_def loud_frame)
  show ?thesis
    by (simp add: grown_def animate_bars[of t] animate_sample_bars nd loud_frame advance_eq
        culled_def dot_def progress_def)
qed

lemma grown_fields [simp]:
  "expandDuration (grown e d t) = d" "easing (grown e d t) = e" "height (grown e d t) = 100"
  "width (grown e d t) = 100" "barWidth (grown e d t) = 3" "barGap (grown e d t) = 10"
  "noiseThreshold (grown e d t) = 0.01" "scrollSpeed (grown e d t) = 7"
  by (simp_all add: grown_def)

lemma reach_grown: "d \<noteq> 0 \<Longrightarrow> 0 \<le> t \<Longrightarrow> reach t (grown e d t)"
proof -
  assume d: "d \<noteq> 0" and t: "0 \<le> t"
  have "reach (- 101) (listening e d (- 101))" using d by (rule reach_listening)
  then have "reach 0 (frame 1 0 loud 2 (listening e d (- 101)))"
    by (rule reach_frame) simp_all
  then show ?thesis
    unfolding grown_def using _ t by (rule reach_frame) simp
qed

lemma sampled_at_0_bars:
  "bars (sampled_at_0 e d) =
     [dot (- 1), dot 12, dot 25, dot 38, dot 51, dot 64, dot 77, loud_bar e]"
  by (simp add: sampled_at_0_def loud_frame loud_bar_def)

lemma sampled_at_0_fields [simp]:
  "expandDuration (sampled_at_0 e d) = d" "easing (sampled_at_0 e d) = e"
  "height (sampled_at_0 e d) = 100" "width (sampled_at_0 e d) = 100"
  "barWidth (sampled_at_0 e d) = 3" "barGap (sampled_at_0 e d) = 10"
  "scrollSpeed (sampled_at_0 e d) = 7"
  by (simp_all add: sampled_at_0_def)

lemma reach_sampled_at_0: "d \<noteq> 0 \<Longrightarrow> reach 0 (sampled_at_0 e d)"
  unfolding sampled_at_0_def
  by (rule reach_frame[OF reach_listening]) simp_all

lemma not_due_sampled_at_0: "\<not> sample_due u (sampled_at_0 e d)"
  by (simp add: sample_due_def sampled_at_0_bars loud_bar_def)

lemma timeline_targets:
  assumes "reach t h" "bar \<in> set (bars (animate_sample now wave h))"
  shows "0 \<le> targetHeight bar"
  using assms reach_wellformed[OF assms(1)]
  by (auto simp: animate_sample_bars' wellformed_def sampled_bar_fields split: if_splits)

lemma progress_mono:
  assumes "0 < expandDuration h" "monotone_on_unit (easing h)" "created bar \<le> t1" "t1 \<le> t2"
  shows "progress t1 h bar \<le> progress t2 h bar"
proof -
  let ?p = "min ((t1 - created bar) / expandDuration h) 1"
  let ?q = "min ((t2 - created bar) / expandDuration h) 1"
  have "(t1 - created bar) / expandDuration h \<le> (t2 - created bar) / expandDuration h"
    using assms(1,4) by (simp add: divide_right_mono)
  then have "?p \<le> ?q" by simp
  moreover have "0 \<le> (t1 - created bar) / expandDuration h" using assms(1,3) by simp
  then have "0 \<le> ?p" by simp
  moreover have "?q \<le> 1" by simp
  ultimately have "easing h ?p \<le> easing h ?q"
    using assms(2) unfolding monotone_on_unit_def by blast
  then show ?thesis by (simp add: progress_def)
qed

lemma monotone_on_unit_id: "monotone_on_unit id"
  by (simp add: monotone_on_unit_def)

lemma monotone_on_unit_easeInQuad: "monotone_on_unit easeInQuad"
  unfolding monotone_on_unit_def easeInQuad_def by (auto intro: mult_mono)

lemma easeInQuad_not_mono: "\<not> mono easeInQuad"
proof
  assume "mono easeInQuad"
  then have "easeInQuad (- 1) \<le> easeInQuad 0" by (rule monoD) simp
  then show False by (simp add: easeInQuad_def)
qed

lemma progress_done:
  assumes "0 < expandDuration h" "easing h 1 = 1" "created bar + expandDuration h \<le> t2"
  shows "progress t2 h bar = 1"
proof -
  have "1 \<le> (t2 - created bar) / expandDuration h"
    using assms(1,3) by (simp add: le_divide_eq)
  then have "min ((t2 - created bar) / expandDuration h) 1 = 1" by simp
  with assms(2) show ?thesis by (simp add: progress_def)
qed

lemma progress_advance [simp]: "progress t2 h (advance t1 h bar) = progress t2 h bar"
  by (simp add: progress_def)

lemma timeline_widths:
  assumes "reach t h" "bar \<in> set (bars (animate_sample now wave h))"
  shows "bar_width bar = barWidth h"
  using assms reach_wellformed[OF assms(1)]
  by (auto simp: animate_sample_bars' wellformed_def sampled_bar_fields split: if_splits)

lemma grown_sampling:
  "lastDataCollectionTime (grown e d t) = 0"
  "analyser (grown e d t) \<noteq> None"
  "frequencyArray (grown e d t) = Some loud"
proof -
  have full: "getFloatTimeDomainData loud (replicate 512 0) = loud"
    by (rule getFloatTimeDomainData_full) (simp add: loud_def)
  have nd: "\<not> sample_due t (animate 0 loud 2 (listening e d (- 101)))"
    by (simp add: sample_due_def loud_frame)
  show "lastDataCollectionTime (grown e d t) = 0"
    by (simp add: grown_def animate_lastDataCollectionTime nd loud_frame)
  show "analyser (grown e d t) \<noteq> None" by (simp add: grown_def)
  show "frequencyArray (grown e d t) = Some loud"
    by (simp add: grown_def animate_frequencyArray nd loud_frame full)
qed

lemma animate_colors [simp]:
  "barColor (animate now wave f h) = barColor h" "dotColor (animate now wave f h) = dotColor h"
  "blackDotColor (animate now wave f h) = blackDotColor h"
  using animate_settings[of h now wave f] by (simp_all add: same_settings_def)

lemma frame_colors [simp]:
  "barColor (frame i now wave f h) = barColor h" "dotColor (frame i now wave f h) = dotColor h"
  "blackDotColor (frame i now wave f h) = blackDotColor h"
  by (simp_all add: frame_eq)

lemma grown_colors [simp]:
  "barColor (grown e d t) = ''#FFFFFF''" "dotColor (grown e d t) = ''#666666''"
  "blackDotColor (grown e d t) = ''#000000''" "timeOffset (grown e d t) = 100"
  by (simp_all add: grown_def)

lemma grown_due: "sample_due 150 (grown e d 50)"
  using grown_sampling(2)[of e d 50]
  by (simp add: sample_due_def grown_bars grown_sampling)

lemma quiet_bar:
  "sampled_bar 150 silence (grown e d 50) =
     \<lparr>bar_x = 100, bar_y = 0, bar_width = 3, bar_height = 0, targetHeight = 0,
      created = 150, status = recorded\<rparr>"
proof -
  have full: "getFloatTimeDomainData silence loud = silence"
    by (rule getFloatTimeDomainData_full) (simp add: loud_def silence_def)
  have peak: "peak_loop 0 silence = 0"
    unfolding silence_def by (rule peak_loop_nonpositive) simp
  show ?thesis
    by (simp add: sampled_bar_eq grown_due grown_sampling full peak)
qed

lemma host_reach_idle:
  "host_reach h h' \<Longrightarrow> pendingFrames h = [] \<Longrightarrow> h' = h"
  by (induction rule: host_reach.induct) auto

lemma seeded_host [simp]:
  "console (seeded e d) = []" "mediaRequests (seeded e d) = 0"
  "animationFrameId (seeded e d) = None" "frequencyArray (seeded e d) = None"
  by (simp_all add: seeded_def drawInitialFrame_def Let_def tuned_def demo_def)

section \<open>Spacing of the timeline\<close>






lemma reversed_listening_fields [simp]:
  "width reversed_listening = 100" "height reversed_listening = 100"
  "barWidth reversed_listening = 3" "barGap reversed_listening = - 4"
  "scrollSpeed reversed_listening = - 1" "timeOffset reversed_listening = 100"
  "expandDuration reversed_listening = 200" "easing reversed_listening = easeInOutCubic"
  by (simp_all add: reversed_listening_def reversed_def demo_def)

lemma reversed_fields [simp]:
  "width reversed = 100" "height reversed = 100" "barWidth reversed = 3"
  "barGap reversed = - 4" "scrollSpeed reversed = - 1" "timeOffset reversed = 100"
  "expandDuration reversed = 200" "easing reversed = easeInOutCubic" "bars reversed = []"
  "pendingFrames reversed = []"
  by (simp_all add: reversed_def demo_def)





section \<open>The peak of a sample\<close>

text \<open>
  Claim C1 says that the peak is the maximum of \<open>|sample[i]|\<close>. The loop of \<open>animate\<close>
  starts from \<open>0\<close> and compares the raw samples, so it computes the maximum of \<open>0\<close> and the
  samples (\<open>peak_loop_max\<close>) and a buffer of negative samples has peak \<open>0\<close>. Here the
  instance listens since clock reading \<open>0\<close>, a sample is due at \<open>101\<close> and every sample of
  the buffer is \<open>-0.5\<close>: the bar appended has target height \<open>0\<close>, where the maximum of
  the absolute values, \<open>0.5\<close>, gives \<open>floor(0.5 * 100 * 1.2) = 60\<close>.
\<close>

theorem peak_ignores_negative_samples:
  "sample_due 101 (listening_since 0) \<and>
   last (bars (animate 101 (replicate 512 (- 1 / 2)) 2 (listening_since 0))) =
     \<lparr>bar_x = 93, bar_y = 50, bar_width = 3, bar_height = 0, targetHeight = 0,
      created = 101, status = recorded\<rparr> \<and>
   Max ((\<lambda>v. \<bar>v\<bar>) ` set (replicate 512 (- 1 / 2 :: real))) = 1 / 2 \<and>
   \<lfloor>(1 / 2 :: real) * height (listening_since 0) * 1.2\<rfloor> = 60"
proof -
  have due: "sample_due 101 (listening_since 0)"
    by (simp add: sample_due_def listening_bars dot_def)
  have peak: "peak_loop 0 (replicate 512 (- (1 / 2) :: real)) = 0"
    by (rule peak_loop_nonpositive) simp
  have "bars (animate 101 (replicate 512 (- 1 / 2)) 2 (listening_since 0)) =
     [dot (- 1), dot 12, dot 25, dot 38, dot 51, dot 64, dot 77,
      \<lparr>bar_x = 93, bar_y = 50, bar_width = 3, bar_height = 0, targetHeight = 0,
       created = 101, status = recorded\<rparr>]"
    by (simp add: animate_bars animate_sample_bars due listening_bars
        getFloatTimeDomainData_def peak advance_eq culled_def dot_def)
  then show ?thesis using due by simp
qed

section \<open>The spacing invariant\<close>




section \<open>The height bound\<close>

text \<open>
  Claim C3, as amended. The default easing maps \<open>[0, 1]\<close> into \<open>[0, 1]\<close>. In every reachable
  instance whose expand duration is positive and whose easing maps \<open>[0, 1]\<close> into \<open>[0, 1]\<close>,
  every bar of the timeline has \<open>0 \<le> currentHeight \<le> targetHeight\<close>.
\<close>

theorem heights_within_target:
  "unit_range easeInOutCubic \<and>
   (reach t h \<longrightarrow> 0 < expandDuration h \<longrightarrow> unit_range (easing h) \<longrightarrow>
      (\<forall>bar \<in> set (bars h). 0 \<le> bar_height bar \<and> bar_height bar \<le> targetHeight bar))"
  using reach_heights[of t h] easeInOutCubic_range by (simp add: heights_bounded_def)

theorem heights_within_target_witness:
  "reach 50 (grown easeInOutCubic 200 50) \<and>
   0 < expandDuration (grown easeInOutCubic 200 50) \<and>
   unit_range (easing (grown easeInOutCubic 200 50)) \<and>
   list_all (\<lambda>bar. 0 \<le> bar_height bar \<and> bar_height bar \<le> targetHeight bar)
     (bars (grown easeInOutCubic 200 50)) \<and>
   bar_height (last (bars (grown easeInOutCubic 200 50))) = 25 / 8 \<and>
   targetHeight (last (bars (grown easeInOutCubic 200 50))) = 50"
proof -
  have r: "reach 50 (grown easeInOutCubic 200 50)" by (rule reach_grown) simp_all
  have d: "0 < expandDuration (grown easeInOutCubic 200 50)" by simp
  from heights_within_target[of 50 "grown easeInOutCubic 200 50"]
  have u: "unit_range (easing (grown easeInOutCubic 200 50))" by simp
  from heights_within_target[of 50 "grown easeInOutCubic 200 50"] r d u
  have "\<forall>bar \<in> set (bars (grown easeInOutCubic 200 50)).
          0 \<le> bar_height bar \<and> bar_height bar \<le> targetHeight bar" by blast
  then have "list_all (\<lambda>bar. 0 \<le> bar_height bar \<and> bar_height bar \<le> targetHeight bar)
     (bars (grown easeInOutCubic 200 50))" by (simp add: list_all_iff)
  moreover have "bar_height (last (bars (grown easeInOutCubic 200 50))) = 25 / 8"
    by (simp add: grown_bars easeInOutCubic_def)
  moreover have "targetHeight (last (bars (grown easeInOutCubic 200 50))) = 50"
    by (simp add: grown_bars)
  ultimately show ?thesis using r d u by simp
qed

text \<open>
  Without the condition on the expand duration the bound fails. The constructor accepts
  \<open>expandDuration: -200\<close>; a bar of target height \<open>50\<close> sampled at clock \<open>0\<close> then has raw
  progress \<open>50 / -200 = -0.25\<close> on the frame at clock \<open>50\<close>, which the default easing takes
  to \<open>-1/16\<close>: the current height is \<open>-25/8\<close>.
\<close>

theorem negative_duration_counterexample:
  "reach 50 (grown easeInOutCubic (- 200) 50) \<and>
   unit_range (easing (grown easeInOutCubic (- 200) 50)) \<and>
   last (bars (grown easeInOutCubic (- 200) 50)) \<in> set (bars (grown easeInOutCubic (- 200) 50)) \<and>
   bar_height (last (bars (grown easeInOutCubic (- 200) 50))) = - (25 / 8) \<and>
   \<not> 0 \<le> bar_height (last (bars (grown easeInOutCubic (- 200) 50)))"
proof -
  have r: "reach 50 (grown easeInOutCubic (- 200) 50)" by (rule reach_grown) simp_all
  have h: "bar_height (last (bars (grown easeInOutCubic (- 200) 50))) = - (25 / 8)"
    by (simp add: grown_bars easeInOutCubic_def)
  show ?thesis using r h easeInOutCubic_range by (simp add: grown_bars)
qed

section \<open>Growth converges\<close>

text \<open>
  Claim C4, as amended. Take a reachable instance with a positive expand duration \<open>D\<close>, and a
  recorded bar of the timeline that a frame advances (the timeline after the frame's sample).
  A frame at clock \<open>t2\<close> sets the bar's current height to
  \<open>targetHeight * easing(min((t2 - created) / D, 1))\<close>, whatever frames ran before. If the easing
  is monotone on \<open>[0, 1]\<close>, the current height does not decrease from a frame at \<open>t1\<close>, at or
  after the bar's creation, to a frame at \<open>t2 \<ge> t1\<close>. If \<open>easing(1) = 1\<close>, on every frame at
  \<open>t2 \<ge> created + D\<close> the current height equals the target height. The witness is the
  scenario: linear easing, target height \<open>50\<close>, \<open>D = 200\<close>, bar created at clock \<open>0\<close>: current
  height \<open>25\<close> at \<open>100\<close>, \<open>50\<close> at \<open>200\<close> and at \<open>300\<close>; and the same with a quadratic
  ease-in, which is monotone on \<open>[0, 1]\<close> only: \<open>25/2\<close> at \<open>100\<close>, \<open>50\<close> at \<open>200\<close>.
\<close>

theorem growth_converges:
  assumes "reach t h" and "bar \<in> set (bars (animate_sample now wave h))"
    and "status bar = recorded" and "0 < expandDuration h"
  shows "bar_height (advance t2 h bar)
           = targetHeight bar * easing h (min ((t2 - created bar) / expandDuration h) 1) \<and>
         bar_height (advance t2 h (advance t1 h bar)) = bar_height (advance t2 h bar) \<and>
         (monotone_on_unit (easing h) \<longrightarrow> created bar \<le> t1 \<longrightarrow> t1 \<le> t2 \<longrightarrow>
            bar_height (advance t1 h bar) \<le> bar_height (advance t2 h bar)) \<and>
         (easing h 1 = 1 \<longrightarrow> created bar + expandDuration h \<le> t2 \<longrightarrow>
            bar_height (advance t2 h bar) = targetHeight bar)"
proof -
  have target: "0 \<le> targetHeight bar" using assms(1,2) by (rule timeline_targets)
  have h: "\<And>u. bar_height (advance u h bar) = targetHeight bar * progress u h bar"
    using assms(3) by (simp add: advance_height)
  have "bar_height (advance t2 h (advance t1 h bar)) = bar_height (advance t2 h bar)"
    using assms(3) by (simp add: advance_height)
  moreover have "bar_height (advance t1 h bar) \<le> bar_height (advance t2 h bar)"
    if "monotone_on_unit (easing h)" "created bar \<le> t1" "t1 \<le> t2"
    using progress_mono[OF assms(4) that] target by (simp add: h mult_left_mono)
  moreover have "bar_height (advance t2 h bar) = targetHeight bar"
    if "easing h 1 = 1" "created bar + expandDuration h \<le> t2"
    using progress_done[OF assms(4) that] by (simp add: h)
  ultimately show ?thesis by (simp add: h progress_def)
qed

theorem growth_converges_witness:
  "reach 0 (sampled_at_0 id 200) \<and>
   loud_bar id \<in> set (bars (animate_sample 100 [] (sampled_at_0 id 200))) \<and>
   status (loud_bar id) = recorded \<and> targetHeight (loud_bar id) = 50 \<and>
   created (loud_bar id) = 0 \<and>
   0 < expandDuration (sampled_at_0 id 200) \<and> expandDuration (sampled_at_0 id 200) = 200 \<and>
   monotone_on_unit (easing (sampled_at_0 id 200)) \<and> easing (sampled_at_0 id 200) 1 = 1 \<and>
   bar_height (advance 100 (sampled_at_0 id 200) (loud_bar id)) = 25 \<and>
   bar_height (advance 200 (sampled_at_0 id 200) (loud_bar id)) = 50 \<and>
   bar_height (advance 300 (sampled_at_0 id 200) (loud_bar id)) = 50 \<and>
   bar_height (advance 200 (sampled_at_0 id 200) (advance 100 (sampled_at_0 id 200) (loud_bar id)))
     = 50 \<and>
   bar_height (advance 100 (sampled_at_0 id 200) (loud_bar id))
     \<le> bar_height (advance 200 (sampled_at_0 id 200) (loud_bar id)) \<and>
   reach 0 (sampled_at_0 easeInQuad 200) \<and>
   monotone_on_unit (easing (sampled_at_0 easeInQuad 200)) \<and>
   \<not> mono (easing (sampled_at_0 easeInQuad 200)) \<and>
   easing (sampled_at_0 easeInQuad 200) 1 = 1 \<and>
   bar_height (advance 100 (sampled_at_0 easeInQuad 200) (loud_bar easeInQuad)) = 25 / 2 \<and>
   bar_height (advance 200 (sampled_at_0 easeInQuad 200) (loud_bar easeInQuad)) = 50 \<and>
   bar_height (advance 100 (sampled_at_0 easeInQuad 200) (loud_bar easeInQuad))
     \<le> bar_height (advance 200 (sampled_at_0 easeInQuad 200) (loud_bar easeInQuad))"
proof -
  let ?h = "sampled_at_0 id 200"
  have r: "reach 0 ?h" by (rule reach_sampled_at_0) simp
  have m: "loud_bar id \<in> set (bars (animate_sample 100 [] ?h))"
    by (simp add: animate_sample_not_due not_due_sampled_at_0 sampled_at_0_bars)
  have s: "status (loud_bar id) = recorded" "targetHeight (loud_bar id) = 50"
    "created (loud_bar id) = 0"
    by (simp_all add: loud_bar_def)
  have d: "0 < expandDuration ?h" by simp
  have e: "monotone_on_unit (easing ?h)" "easing ?h 1 = 1"
    by (simp_all add: monotone_on_unit_id)
  note g = growth_converges[OF r m s(1) d]
  have g1: "bar_height (advance 100 ?h (loud_bar id)) = 25"
    using g[of 100 0] by (simp add: s)
  have g2: "bar_height (advance 200 ?h (loud_bar id)) = 50"
    using g[of 200 0] e by (simp add: s)
  have g3: "bar_height (advance 300 ?h (loud_bar id)) = 50"
    using g[of 300 0] e by (simp add: s)
  have g4: "bar_height (advance 200 ?h (advance 100 ?h (loud_bar id))) = 50"
    using g[of 200 100] e by (simp add: s)
  have g5: "bar_height (advance 100 ?h (loud_bar id)) \<le> bar_height (advance 200 ?h (loud_bar id))"
    using g[of 200 100] e by (simp add: s)
  let ?k = "sampled_at_0 easeInQuad 200"
  let ?b = "loud_bar easeInQuad"
  have rk: "reach 0 ?k" by (rule reach_sampled_at_0) simp
  have mk: "?b \<in> set (bars (animate_sample 100 [] ?k))"
    by (simp add: animate_sample_not_due not_due_sampled_at_0 sampled_at_0_bars)
  have sk: "status ?b = recorded" "targetHeight ?b = 50" "created ?b = 0"
    by (simp_all add: loud_bar_def)
  have dk: "0 < expandDuration ?k" by simp
  have ek: "monotone_on_unit (easing ?k)" "\<not> mono (easing ?k)" "easing ?k 1 = 1"
    by (simp_all add: monotone_on_unit_easeInQuad easeInQuad_not_mono) (simp add: easeInQuad_def)
  note q = growth_converges[OF rk mk sk(1) dk]
  have q1: "bar_height (advance 100 ?k ?b) = 25 / 2"
    using q[of 100 0] by (simp add: sk easeInQuad_def)
  have q2: "bar_height (advance 200 ?k ?b) = 50"
    using q[of 200 0] ek by (simp add: sk)
  have q3: "bar_height (advance 100 ?k ?b) \<le> bar_height (advance 200 ?k ?b)"
    using q[of 200 100] ek by (simp add: sk)
  show ?thesis
    using r m s d e g1 g2 g3 g4 g5 rk ek q1 q2 q3 by simp
qed

text \<open>
  For every expand duration the claim fails: with \<open>expandDuration: -200\<close> and linear easing,
  the bar created at clock \<open>0\<close> with target height \<open>50\<close> has, on the frame at clock
  \<open>50 \<ge> 0 + (-200)\<close>, current height \<open>50 * (50 / -200) = -25/2\<close>, not \<open>50\<close>.
\<close>

theorem growth_negative_duration_counterexample:
  "reach 50 (grown id (- 200) 50) \<and>
   mono (easing (grown id (- 200) 50)) \<and> easing (grown id (- 200) 50) 1 = 1 \<and>
   status (last (bars (grown id (- 200) 50))) = recorded \<and>
   created (last (bars (grown id (- 200) 50))) + expandDuration (grown id (- 200) 50) \<le> 50 \<and>
   targetHeight (last (bars (grown id (- 200) 50))) = 50 \<and>
   bar_height (last (bars (grown id (- 200) 50))) = - (25 / 2)"
proof -
  have "reach 50 (grown id (- 200) 50)" by (rule reach_grown) simp_all
  then show ?thesis by (simp add: grown_bars mono_def)
qed

section \<open>Culling\<close>

text \<open>
  Claim C5. One frame first takes its sample, then moves every bar of the timeline left by
  \<open>scrollSpeed\<close> (\<open>advance\<close> is what the loop does to one bar, its width unchanged) and removes
  exactly the bars whose \<open>position + width\<close> is then below \<open>0\<close>: the timeline after the frame
  is the advanced timeline, in its order, without those bars. Hence no bar with
  \<open>position + width \<ge> 0\<close> is removed, and in the state after a frame, which every later state
  of a running timeline is, no bar with \<open>position + width < 0\<close> is present: the bars of a later
  state are advanced survivors and bars sampled since, never a removed one.
\<close>

theorem animate_culls_exactly:
  "bars (animate now wave frameId h) =
     filter (\<lambda>bar. \<not> bar_x bar + bar_width bar < 0)
       (map (advance now h) (bars (animate_sample now wave h))) \<and>
   (\<forall>bar. bar_x (advance now h bar) = bar_x bar - scrollSpeed h \<and>
          bar_width (advance now h bar) = bar_width bar) \<and>
   (\<forall>bar \<in> set (bars (animate now wave frameId h)). 0 \<le> bar_x bar + bar_width bar)"
proof -
  have "bars (animate now wave frameId h) =
     filter (\<lambda>bar. \<not> bar_x bar + bar_width bar < 0)
       (map (advance now h) (bars (animate_sample now wave h)))"
    using animate_bars[of now wave frameId h] by (simp add: culled_def)
  then show ?thesis by auto
qed

theorem animate_culls_exactly_witness:
  "bars fast_seeded = [dot 0, dot 13, dot 26, dot 39, dot 52, dot 65, dot 78, dot 91] \<and>
   bars (animate 16 [] 1 fast_seeded) = [dot 6, dot 19, dot 32, dot 45, dot 58, dot 71, dot 84] \<and>
   list_all (\<lambda>bar. 0 \<le> bar_x bar + bar_width bar) (bars (animate 16 [] 1 fast_seeded))"
  using animate_culls_exactly[of 16 "[]" 1 fast_seeded]
  by (simp add: fast_seeded_bars animate_sample_def sample_due_def dot_def advance_eq)

section \<open>The sampling interval\<close>

text \<open>
  Claim C6. A frame takes a sample only when \<open>now - lastDataCollectionTime\<close> is strictly
  greater than \<open>timeOffset\<close>; a frame that takes none leaves the timeline as it was before
  the bars are advanced, and one that takes a sample appends exactly one recorded bar created
  at \<open>now\<close>. So of any run of frames whose clock readings all lie in one window
  \<open>[a, a + timeOffset]\<close>, whatever their number, at most one takes a sample. The witness is
  the scenario with \<open>timeOffset = 100\<close>: frames at \<open>0\<close> and \<open>50\<close> take one sample between
  them, and a third frame at \<open>150\<close> takes a second.
\<close>

theorem sampling_interval:
  "(sample_due now h \<longrightarrow> timeOffset h < now - lastDataCollectionTime h) \<and>
   (\<not> sample_due now h \<longrightarrow> animate_sample now wave h = h) \<and>
   (sample_due now h \<longrightarrow>
      (\<exists>bar. bars (animate_sample now wave h) = bars h @ [bar] \<and>
             status bar = recorded \<and> created bar = now)) \<and>
   ((\<forall>f \<in> set fs. a \<le> fst f \<and> fst f \<le> a + timeOffset h) \<longrightarrow> samples_taken fs h \<le> 1)"
  using one_sample_in_window[of fs a h]
  by (auto simp: sample_due_def animate_sample_not_due animate_sample_bars)

theorem sampling_interval_witness:
  "sample_due 0 (listening_since (- 101)) \<and>
   timeOffset (listening_since (- 101)) = 100 \<and>
   timeOffset (listening_since (- 101)) < 0 - lastDataCollectionTime (listening_since (- 101)) \<and>
   (\<exists>bar. bars (animate_sample 0 [] (listening_since (- 101)))
            = bars (listening_since (- 101)) @ [bar] \<and>
          status bar = recorded \<and> created bar = 0) \<and>
   \<not> sample_due 50 (animate 0 [] 2 (listening_since (- 101))) \<and>
   animate_sample 50 [] (animate 0 [] 2 (listening_since (- 101)))
     = animate 0 [] 2 (listening_since (- 101)) \<and>
   samples_taken [(0, [], 2), (50, [], 3)] (listening_since (- 101)) \<le> 1 \<and>
   samples_taken [(0, [], 2), (50, [], 3), (150, [], 4)] (listening_since (- 101)) = 2"
proof -
  let ?L = "listening_since (- 101)"
  have window: "\<forall>f \<in> set [(0, [], 2), (50, [], 3)]. (0::real) \<le> fst f \<and> fst f \<le> 0 + timeOffset ?L"
    by simp
  from sampling_interval[of 0 ?L "[]" "[(0, [], 2), (50, [], 3)]" 0] window first_frame(1)
  have a: "timeOffset ?L < 0 - lastDataCollectionTime ?L"
    "\<exists>bar. bars (animate_sample 0 [] ?L) = bars ?L @ [bar] \<and> status bar = recorded \<and> created bar = 0"
    "samples_taken [(0, [], 2), (50, [], 3)] ?L \<le> 1"
    by blast+
  from sampling_interval[of 50 "animate 0 [] 2 ?L" "[]" "[]" 0] second_frame(1)
  have b: "animate_sample 50 [] (animate 0 [] 2 ?L) = animate 0 [] 2 ?L"
    by blast
  have c: "samples_taken [(0, [], 2), (50, [], 3), (150, [], 4)] ?L = 2"
    by (simp add: first_frame second_frame third_frame)
  show ?thesis
    using a b c first_frame(1) second_frame(1) by simp
qed

section \<open>Seeding\<close>

text \<open>
  Claim C7, as amended. Whenever \<open>barWidth + barGap\<close> is not \<open>0\<close>, \<open>initialize\<close> returns,
  whatever bars the timeline held before, with exactly \<open>ceil(width / (barWidth + barGap))\<close>
  placeholder bars (none when that number is not positive): bar \<open>i\<close> stands at offset
  \<open>i * (barWidth + barGap)\<close>, has width \<open>barWidth\<close>, heights \<open>0\<close> and status
  \<open>placeholder\<close>. Calling \<open>initialize\<close> again returns and leaves the same bars.
\<close>

theorem initialize_seeds:
  assumes "barWidth h + barGap h \<noteq> 0"
  shows "\<exists>h1 h2. initialize h = Some h1 \<and>
           bars h1 = map (placeholder_bar h)
                       [0..<nat \<lceil>width h / (barWidth h + barGap h)\<rceil>] \<and>
           initialize h1 = Some h2 \<and> bars h2 = bars h1"
proof -
  let ?n = "nat \<lceil>width h / (barWidth h + barGap h)\<rceil>"
  let ?h1 = "drawInitialFrame (h\<lparr>bars := map (placeholder_bar h) [0..<?n]\<rparr>)"
  have same: "same_settings h ?h1"
    by (simp add: drawInitialFrame_def Let_def same_settings_def)
  then have pb: "placeholder_bar ?h1 = placeholder_bar h"
    by (intro ext) (simp add: placeholder_bar_def same_settings_def)
  have "barWidth ?h1 + barGap ?h1 \<noteq> 0" "width ?h1 = width h" "barWidth ?h1 = barWidth h"
    "barGap ?h1 = barGap h"
    using same assms by (simp_all add: same_settings_def)
  then have "initialize ?h1 =
     Some (drawInitialFrame (?h1\<lparr>bars := map (placeholder_bar h) [0..<?n]\<rparr>))"
    by (simp add: initialize_some pb del: placeholder_bar_bars)
  then show ?thesis
    using initialize_some[OF assms] by simp
qed

theorem initialize_seeds_witness:
  "barWidth demo + barGap demo \<noteq> 0 \<and>
   (\<exists>h1 h2. initialize demo = Some h1 \<and> length (bars h1) = 8 \<and>
      map bar_x (bars h1) = [0, 13, 26, 39, 52, 65, 78, 91] \<and>
      list_all (\<lambda>bar. status bar = placeholder \<and> bar_width bar = 3) (bars h1) \<and>
      initialize h1 = Some h2 \<and> bars h2 = bars h1)"
proof -
  have pitch: "barWidth demo + barGap demo \<noteq> 0" by (simp add: demo_def)
  have count: "nat \<lceil>width demo / (barWidth demo + barGap demo)\<rceil> = 8"
    by (simp add: demo_def)
  have offsets: "map bar_x (map (placeholder_bar demo) [0..<8]) = [0, 13, 26, 39, 52, 65, 78, 91]"
    by (simp add: upt_8 placeholder_bar_def demo_def)
  have kinds: "list_all (\<lambda>bar. status bar = placeholder \<and> bar_width bar = 3)
                 (map (placeholder_bar demo) [0..<8])"
    by (simp add: upt_8 placeholder_bar_def demo_def)
  from initialize_seeds[OF pitch] obtain h1 h2 where
    "initialize demo = Some h1" "bars h1 = map (placeholder_bar demo) [0..<8]"
    "initialize h1 = Some h2" "bars h2 = bars h1"
    unfolding count by blast
  with pitch offsets kinds show ?thesis by auto
qed

text \<open>
  The claim as stated, for every bar width and gap, fails when they add up to \<open>0\<close> on a
  surface of positive width: the count is \<open>Infinity\<close> and the loop never ends.
\<close>

theorem initialize_zero_pitch_counterexample:
  "constructor (no_options\<lparr>opt_barGap := Some (- 3)\<rparr>) None = Inr (demo\<lparr>barGap := - 3\<rparr>) \<and>
   initialize (demo\<lparr>barGap := - 3\<rparr>) = None"
proof -
  have "initialize (demo\<lparr>barGap := - 3\<rparr>) = None"
    by (rule initialize_diverges) (simp_all add: demo_def)
  moreover have "constructor (no_options\<lparr>opt_barGap := Some (- 3)\<rparr>) None
                   = Inr (demo\<lparr>barGap := - 3\<rparr>)"
    by (simp add: constructor_def no_options_def demo_def demo_canvas_def setupCanvas_def
        scale_def Let_def or_number_def or_string_def or_function_def nullish_number_def)
  ultimately show ?thesis by simp
qed

section \<open>Rendering\<close>

text \<open>
  Claim C8. A frame clears the surface and then paints one rectangle for each bar of the
  timeline (the bars after the frame's sample), newest first, and nothing else. A placeholder
  is painted as a strip of height \<open>2\<close> at \<open>y = height / 2 - 1\<close> in the placeholder colour
  (\<open>blackDotColor\<close>). A recorded bar whose target height is strictly below
  \<open>noiseThreshold * height\<close> is painted as the same strip in the quiet-signal colour
  (\<open>dotColor\<close>), whatever its current height. A recorded bar at or above the threshold is
  painted in \<open>barColor\<close> with its current height (\<open>bar_height\<close> of the advanced bar), at
  \<open>y = height / 2 - currentHeight / 2\<close>. Each rectangle has the width of its bar, which in a
  reachable instance is \<open>barWidth\<close>.
\<close>

theorem frame_paints:
  "calls (ctx (animate now wave frameId h)) =
     calls (ctx h) @ ClearRect 0 0 (width h) (height h)
       # map (paint now h) (rev (bars (animate_sample now wave h))) \<and>
   (status bar = placeholder \<longrightarrow>
      paint now h bar =
        FillRect (blackDotColor h) (bar_x bar) (height h / 2 - 1) (bar_width bar) 2) \<and>
   (status bar = recorded \<and> targetHeight bar < noiseThreshold h * height h \<longrightarrow>
      paint now h bar = FillRect (dotColor h) (bar_x bar) (height h / 2 - 1) (bar_width bar) 2) \<and>
   (status bar = recorded \<and> \<not> targetHeight bar < noiseThreshold h * height h \<longrightarrow>
      paint now h bar =
        FillRect (barColor h) (bar_x bar) (height h / 2 - bar_height (advance now h bar) / 2)
          (bar_width bar) (bar_height (advance now h bar))) \<and>
   (reach t h \<longrightarrow> (\<forall>b \<in> set (bars (animate_sample now wave h)). bar_width b = barWidth h))"
  using timeline_widths[of t h _ now wave]
  by (simp add: animate_calls paint_eq mult.commute)

theorem frame_paints_witness:
  "status (dot 70) = placeholder \<and>
   paint 150 (grown easeInOutCubic 200 50) (dot 70) = FillRect ''#000000'' 70 49 3 2 \<and>
   status (sampled_bar 150 silence (grown easeInOutCubic 200 50)) = recorded \<and>
   targetHeight (sampled_bar 150 silence (grown easeInOutCubic 200 50))
     < noiseThreshold (grown easeInOutCubic 200 50) * height (grown easeInOutCubic 200 50) \<and>
   paint 150 (grown easeInOutCubic 200 50) (sampled_bar 150 silence (grown easeInOutCubic 200 50))
     = FillRect ''#666666'' 100 49 3 2 \<and>
   status (last (bars (grown easeInOutCubic 200 50))) = recorded \<and>
   \<not> targetHeight (last (bars (grown easeInOutCubic 200 50)))
       < noiseThreshold (grown easeInOutCubic 200 50) * height (grown easeInOutCubic 200 50) \<and>
   paint 150 (grown easeInOutCubic 200 50) (last (bars (grown easeInOutCubic 200 50)))
     = FillRect ''#FFFFFF'' 86 (425 / 16) 3 (375 / 8) \<and>
   reach 50 (grown easeInOutCubic 200 50) \<and>
   list_all (\<lambda>b. bar_width b = barWidth (grown easeInOutCubic 200 50))
     (bars (animate_sample 150 silence (grown easeInOutCubic 200 50))) \<and>
   calls (ctx (animate 150 silence 4 (grown easeInOutCubic 200 50))) =
     calls (ctx (grown easeInOutCubic 200 50)) @
       [ClearRect 0 0 100 100,
        FillRect ''#666666'' 100 49 3 2,
        FillRect ''#FFFFFF'' 86 (425 / 16) 3 (375 / 8),
        FillRect ''#000000'' 70 49 3 2, FillRect ''#000000'' 57 49 3 2,
        FillRect ''#000000'' 44 49 3 2, FillRect ''#000000'' 31 49 3 2,
        FillRect ''#000000'' 18 49 3 2, FillRect ''#000000'' 5 49 3 2]"
proof -
  let ?G = "grown easeInOutCubic 200 50"
  let ?q = "sampled_bar 150 silence ?G"
  let ?l = "last (bars ?G)"
  have r: "reach 50 ?G" by (rule reach_grown) simp_all
  have l: "?l = \<lparr>bar_x = 86, bar_y = 50 - 50 * easeInOutCubic (min (50 / 200) 1) / 2,
       bar_width = 3, bar_height = 50 * easeInOutCubic (min (50 / 200) 1), targetHeight = 50,
       created = 0, status = recorded\<rparr>"
    by (simp add: grown_bars)
  have adv: "bar_height (advance 150 ?G ?l) = 375 / 8"
    by (simp add: l advance_height progress_def easeInOutCubic_def power3_eq_cube)
  have a: "status (dot 70) = placeholder" by (simp add: dot_def)
  have b: "status ?q = recorded" "targetHeight ?q < noiseThreshold ?G * height ?G"
    by (simp_all add: quiet_bar)
  have c: "status ?l = recorded" "\<not> targetHeight ?l < noiseThreshold ?G * height ?G"
    by (simp_all add: l)
  have p1: "paint 150 ?G (dot 70) = FillRect ''#000000'' 70 49 3 2"
    using frame_paints[of 150 silence 4 ?G "dot 70" 50] a by (simp add: dot_def)
  have p2: "paint 150 ?G ?q = FillRect ''#666666'' 100 49 3 2"
    using frame_paints[of 150 silence 4 ?G ?q 50] b by (simp add: quiet_bar)
  have p3: "paint 150 ?G ?l = FillRect ''#FFFFFF'' 86 (425 / 16) 3 (375 / 8)"
    using frame_paints[of 150 silence 4 ?G ?l 50] c by (simp add: adv) (simp add: l)
  have w: "list_all (\<lambda>b. bar_width b = barWidth ?G) (bars (animate_sample 150 silence ?G))"
    using frame_paints[of 150 silence 4 ?G ?l 50] r by (simp add: list_all_iff)
  have dots: "\<And>px. paint 150 ?G (dot px) = FillRect ''#000000'' px 49 3 2"
    by (simp add: paint_eq dot_def)
  have tl: "bars (animate_sample 150 silence ?G) =
      [dot 5, dot 18, dot 31, dot 44, dot 57, dot 70, ?l, ?q]"
    by (simp add: animate_sample_bars' grown_due grown_bars)
  have "calls (ctx (animate 150 silence 4 ?G)) =
     calls (ctx ?G) @ ClearRect 0 0 (width ?G) (height ?G)
       # map (paint 150 ?G) (rev (bars (animate_sample 150 silence ?G)))"
    using frame_paints[of 150 silence 4 ?G ?l 50] by blast
  then have f: "calls (ctx (animate 150 silence 4 ?G)) =
     calls (ctx ?G) @
       [ClearRect 0 0 100 100,
        FillRect ''#666666'' 100 49 3 2,
        FillRect ''#FFFFFF'' 86 (425 / 16) 3 (375 / 8),
        FillRect ''#000000'' 70 49 3 2, FillRect ''#000000'' 57 49 3 2,
        FillRect ''#000000'' 44 49 3 2, FillRect ''#000000'' 31 49 3 2,
        FillRect ''#000000'' 18 49 3 2, FillRect ''#000000'' 5 49 3 2]"
    by (simp only: tl rev.simps list.map append.simps p2 p3 dots map_append) simp
  show ?thesis
    using a b c p1 p2 p3 r w f by simp
qed

section \<open>A rejected stream\<close>

text \<open>
  Claim C9. When the promise of \<open>getUserMedia\<close> is rejected, \<open>start\<close> returns normally and
  changes two things only: one acquisition has been requested, and the error is written to the
  console. The timeline, the analyser (none), the frame id and the registered frame callbacks
  are as before. If no frame callback was registered, as after construction and
  \<open>initialize\<close>, the host has nothing to run: whatever it does unasked, the instance stays as
  \<open>start\<close> left it, so no frame ever runs, no recorded bar is ever appended, and no further
  acquisition is requested.
\<close>

theorem rejected_start:
  "start (Rejected err) h =
     h\<lparr>mediaRequests := Suc (mediaRequests h),
       console := console h @ [(''Error getting audio stream:'', err)]\<rparr> \<and>
   bars (start (Rejected err) h) = bars h \<and>
   analyser (start (Rejected err) h) = analyser h \<and>
   animationFrameId (start (Rejected err) h) = animationFrameId h \<and>
   pendingFrames (start (Rejected err) h) = pendingFrames h \<and>
   mediaRequests (start (Rejected err) h) = Suc (mediaRequests h) \<and>
   console (start (Rejected err) h) = console h @ [(''Error getting audio stream:'', err)] \<and>
   (pendingFrames h = [] \<longrightarrow> host_reach (start (Rejected err) h) h' \<longrightarrow>
      h' = start (Rejected err) h)"
proof -
  have eq: "start (Rejected err) h =
     h\<lparr>mediaRequests := Suc (mediaRequests h),
       console := console h @ [(''Error getting audio stream:'', err)]\<rparr>"
    by (simp add: start_def soundNotAllowed_def)
  have "h' = start (Rejected err) h"
    if "pendingFrames h = []" "host_reach (start (Rejected err) h) h'"
    using that(2) by (rule host_reach_idle) (simp add: eq that(1))
  then show ?thesis using eq by simp
qed

theorem rejected_start_witness:
  "initialize fast = Some fast_seeded \<and>
   pendingFrames fast_seeded = [] \<and>
   host_reach (start (Rejected ''NotAllowedError'') fast_seeded)
              (start (Rejected ''NotAllowedError'') fast_seeded) \<and>
   bars (start (Rejected ''NotAllowedError'') fast_seeded) =
     [dot 0, dot 13, dot 26, dot 39, dot 52, dot 65, dot 78, dot 91] \<and>
   analyser (start (Rejected ''NotAllowedError'') fast_seeded) = None \<and>
   animationFrameId (start (Rejected ''NotAllowedError'') fast_seeded) = None \<and>
   pendingFrames (start (Rejected ''NotAllowedError'') fast_seeded) = [] \<and>
   mediaRequests (start (Rejected ''NotAllowedError'') fast_seeded) = 1 \<and>
   console (start (Rejected ''NotAllowedError'') fast_seeded) =
     [(''Error getting audio stream:'', ''NotAllowedError'')]"
  using rejected_start[of "''NotAllowedError''" fast_seeded
      "start (Rejected ''NotAllowedError'') fast_seeded"]
    initialize_fast[of easeInOutCubic 200] host_stay
  by (simp add: fast_seeded_bars)

section \<open>Falsy options take the defaults\<close>

text \<open>
  Claim C10. At construction, each of \<open>timeOffset\<close>, \<open>barWidth\<close>, \<open>barGap\<close>, \<open>scrollSpeed\<close>,
  \<open>barColor\<close>, \<open>dotColor\<close>, \<open>blackDotColor\<close>, \<open>expandDuration\<close> and \<open>easing\<close> takes its
  default when the option passed is falsy (\<open>undefined\<close>, \<open>0\<close>, the empty string). So the
  scroll speed and the expand duration of an instance are never \<open>0\<close>: \<open>scrollSpeed: 0\<close>
  becomes \<open>1\<close> and \<open>expandDuration: 0\<close> becomes \<open>200\<close>. The noise threshold is honoured
  whatever its value, \<open>0\<close> included, and only \<open>undefined\<close> gives \<open>0.01\<close>.
\<close>

theorem constructor_falsy_defaults:
  assumes "constructor options dpr = Inr h"
  shows "(falsy_number (opt_timeOffset options) \<longrightarrow> timeOffset h = 100) \<and>
         (falsy_number (opt_barWidth options) \<longrightarrow> barWidth h = 3) \<and>
         (falsy_number (opt_barGap options) \<longrightarrow> barGap h = 10) \<and>
         (falsy_number (opt_scrollSpeed options) \<longrightarrow> scrollSpeed h = 1) \<and>
         (falsy_string (opt_barColor options) \<longrightarrow> barColor h = ''#FFFFFF'') \<and>
         (falsy_string (opt_dotColor options) \<longrightarrow> dotColor h = ''#666666'') \<and>
         (falsy_string (opt_blackDotColor options) \<longrightarrow> blackDotColor h = ''#000000'') \<and>
         (falsy_number (opt_expandDuration options) \<longrightarrow> expandDuration h = 200) \<and>
         (opt_easing options = None \<longrightarrow> easing h = easeInOutCubic) \<and>
         scrollSpeed h \<noteq> 0 \<and> expandDuration h \<noteq> 0 \<and>
         (\<forall>v. opt_noiseThreshold options = Some v \<longrightarrow> noiseThreshold h = v) \<and>
         (opt_noiseThreshold options = None \<longrightarrow> noiseThreshold h = 0.01)"
  using constructor_fields[OF assms]
  by (auto simp: falsy_number_def falsy_string_def or_number_def or_string_def
      or_function_def nullish_number_def split: option.splits)

theorem constructor_falsy_defaults_witness:
  "constructor zero_options None = Inr (demo\<lparr>noiseThreshold := 0\<rparr>) \<and>
   falsy_number (opt_timeOffset zero_options) \<and> timeOffset (demo\<lparr>noiseThreshold := 0\<rparr>) = 100 \<and>
   falsy_number (opt_barWidth zero_options) \<and> barWidth (demo\<lparr>noiseThreshold := 0\<rparr>) = 3 \<and>
   falsy_number (opt_barGap zero_options) \<and> barGap (demo\<lparr>noiseThreshold := 0\<rparr>) = 10 \<and>
   falsy_number (opt_scrollSpeed zero_options) \<and> scrollSpeed (demo\<lparr>noiseThreshold := 0\<rparr>) = 1 \<and>
   falsy_string (opt_barColor zero_options) \<and>
   barColor (demo\<lparr>noiseThreshold := 0\<rparr>) = ''#FFFFFF'' \<and>
   falsy_string (opt_dotColor zero_options) \<and>
   dotColor (demo\<lparr>noiseThreshold := 0\<rparr>) = ''#666666'' \<and>
   falsy_string (opt_blackDotColor zero_options) \<and>
   blackDotColor (demo\<lparr>noiseThreshold := 0\<rparr>) = ''#000000'' \<and>
   falsy_number (opt_expandDuration zero_options) \<and>
   expandDuration (demo\<lparr>noiseThreshold := 0\<rparr>) = 200 \<and>
   opt_easing zero_options = None \<and> easing (demo\<lparr>noiseThreshold := 0\<rparr>) = easeInOutCubic \<and>
   opt_noiseThreshold zero_options = Some 0 \<and> noiseThreshold (demo\<lparr>noiseThreshold := 0\<rparr>) = 0"
proof -
  have falsy: "falsy_number (opt_timeOffset zero_options)" "falsy_number (opt_barWidth zero_options)"
    "falsy_number (opt_barGap zero_options)" "falsy_number (opt_scrollSpeed zero_options)"
    "falsy_string (opt_barColor zero_options)" "falsy_string (opt_dotColor zero_options)"
    "falsy_string (opt_blackDotColor zero_options)"
    "falsy_number (opt_expandDuration zero_options)" "opt_easing zero_options = None"
    "opt_noiseThreshold zero_options = Some 0"
    by (simp_all add: zero_options_def falsy_number_def falsy_string_def)
  show ?thesis
    using constructor_falsy_defaults[OF constructor_zero_options] falsy
      constructor_zero_options
    by simp
qed

end
